theory Spec2Isabelle
  imports Main "HOL-Library.Word"
begin

section \<open>Values, errors and observable effects\<close>

text \<open>
  The plugins pass around \<^verbatim>\<open>map[string]interface{}\<close> values (LUN descriptors,
  HyperMetro pairs, parameter bags, capability maps). An \<^verbatim>\<open>interface{}\<close> value
  is modelled by its dynamic type as far as the code inspects it: a string, a bool, a list,
  a nested map, the nil interface, or a value of any other dynamic type.
\<close>

datatype val =
    VNil
  | VStr string
  | VBool bool
  | VList "val list"
  | VMap "string \<Rightarrow> val option"
  | VOther

type_synonym obj = "string \<Rightarrow> val option"

text \<open>Go's \<^verbatim>\<open>m[k]\<close>: a missing key reads as the nil interface.\<close>

definition index :: "obj \<Rightarrow> string \<Rightarrow> val" where
  "index m k = (case m k of None \<Rightarrow> VNil | Some v \<Rightarrow> v)"

text \<open>The checked type assertions \<^verbatim>\<open>v.(string)\<close>, \<^verbatim>\<open>v.(map[string]interface{})\<close>
  and \<^verbatim>\<open>v.([]interface{})\<close>; \<open>None\<close> is \<^verbatim>\<open>ok == false\<close>.\<close>

fun asString :: "val \<Rightarrow> string option" where
  "asString (VStr s) = Some s"
| "asString _ = None"

fun asMap :: "val \<Rightarrow> obj option" where
  "asMap (VMap m) = Some m"
| "asMap _ = None"

fun asList :: "val \<Rightarrow> val list option" where
  "asList (VList xs) = Some xs"
| "asList _ = None"

text \<open>
  A Go \<^verbatim>\<open>error\<close> value is \<open>Err\<close> with its message. A run-time panic (an unchecked
  type assertion that fails, a call through a nil client) is \<open>Panic\<close>: it is never a
  normal return.
\<close>

datatype error = Err string | Panic string

text \<open>Client handles: \<^verbatim>\<open>p.cli\<close> and the clients of a request are references to array
  client objects.\<close>

type_synonym client = nat

text \<open>The attacher objects built per call: \<^verbatim>\<open>attacher.NewAttacher(product, cli,
  protocol, "csi", portals, alua)\<close> and \<^verbatim>\<open>attacher.NewMetroAttacher(local, remote,
  protocol)\<close>.\<close>

datatype attacher =
    NewAttacher string "client option" string string "string list" obj
  | NewMetroAttacher attacher attacher string

text \<open>One element of the \<^verbatim>\<open>[]reflect.Value\<close> that \<^verbatim>\<open>utils.ReflectCall\<close> returns,
  by what \<^verbatim>\<open>Interface()\<close> yields on it: nil, an error, a
  \<^verbatim>\<open>map[string]interface{}\<close>, or anything else.\<close>

datatype rvalue = RNil | RError string | RMap obj | ROther

text \<open>What a call does besides returning: log lines (format string and arguments), and the
  calls made to the array clients and to the attachers, in program order.\<close>

datatype event =
    LogInfo string "val list"
  | LogWarning string "val list"
  | LogError string "val list"
  | CallGetLunByName client string
  | CallGetHyperMetroPair client string
  | CallReflect attacher string string obj
  | CallLogin client "error option"
  | CallLogout client
  | CallValidateLogin client "error option"

section \<open>The oceanstor-san plugin\<close>

text \<open>
  \<^verbatim>\<open>OceanstorSanPlugin\<close>, with the two fields of the embedded base plugin that this
  file reads (\<^verbatim>\<open>cli\<close>, \<^verbatim>\<open>product\<close>). The remote plugins are pointers; plugins
  live in a store indexed by address, and a nil pointer is \<open>None\<close>.
\<close>

record OceanstorSanPlugin =
  cli :: client
  product :: string
  protocol :: string
  portals :: "string list"
  alua :: obj
  replicaRemotePlugin :: "nat option"
  metroRemotePlugin :: "nat option"
  storageOnline :: bool
  clientCount :: "64 word"

type_synonym store = "nat \<Rightarrow> OceanstorSanPlugin"

record handlerRequest =
  localCli :: "client option"
  metroCli :: "client option"
  lun :: obj
  parameters :: obj
  "method" :: string

text \<open>
  The collaborators outside this package, as the plugin consumes them: the array client's
  lookups, \<^verbatim>\<open>utils.ReflectCall\<close> on an attacher, and \<^verbatim>\<open>json.Unmarshal\<close> into a
  \<^verbatim>\<open>map[string]string\<close> (\<open>None\<close> when it returns an error).
\<close>

record env =
  MakeLunName :: "client \<Rightarrow> string \<Rightarrow> string"
  GetLunByName :: "client \<Rightarrow> string \<Rightarrow> error + obj option"
  GetHyperMetroPairByLocalObjID :: "client \<Rightarrow> string \<Rightarrow> error + obj option"
  ReflectCall :: "attacher \<Rightarrow> string \<Rightarrow> string \<Rightarrow> obj \<Rightarrow> rvalue list"
  jsonUnmarshal :: "string \<Rightarrow> (string \<Rightarrow> string option) option"

definition hyperMetroPairRunningStatusNormal :: string where
  "hyperMetroPairRunningStatusNormal = ''1''"

definition hyperMetroPairRunningStatusPause :: string where
  "hyperMetroPairRunningStatusPause = ''41''"

definition reflectResultLength :: nat where
  "reflectResultLength = 2"

definition isHyperMetro :: "env \<Rightarrow> obj \<Rightarrow> event list \<times> bool" where
  \<open>isHyperMetro e l =
    (case asString (index l ''HASRSSOBJECT'') of
       None \<Rightarrow>
         ([LogError ''get lun HASRSSOBJECT failed, lun["HASRSSOBJECT"]:%v''
             [index l ''HASRSSOBJECT'']], False)
     | Some rssStr \<Rightarrow>
         (case jsonUnmarshal e rssStr of
            None \<Rightarrow>
              ([LogError ''unmarshal lun HASRSSOBJECT failed, lun["HASRSSOBJECT"]:%s''
                  [VStr rssStr]], False)
          | Some rss \<Rightarrow>
              ([], (case rss ''HyperMetro'' of
                      None \<Rightarrow> False
                    | Some hyperMetro \<Rightarrow> hyperMetro = ''TRUE''))))\<close>

text \<open>The pair status checks of \<^verbatim>\<open>metroHandler\<close>: the warning logged, if any.\<close>

definition pairStatusWarning :: "string \<Rightarrow> obj \<Rightarrow> string \<Rightarrow> event list" where
  "pairStatusWarning m pair localLunID =
    (if m = ''ControllerDetach'' \<or> m = ''NodeUnstage'' then
       (if index pair ''RUNNINGSTATUS'' \<noteq> VStr hyperMetroPairRunningStatusNormal \<and>
           index pair ''RUNNINGSTATUS'' \<noteq> VStr hyperMetroPairRunningStatusPause
        then [LogWarning ''hypermetro pair status of LUN %s is not normal or pause''
                [VStr localLunID]]
        else [])
     else
       (if index pair ''RUNNINGSTATUS'' \<noteq> VStr hyperMetroPairRunningStatusNormal
        then [LogWarning ''hypermetro pair status of LUN %s is not normal'' [VStr localLunID]]
        else []))"

definition metroHandler ::
  "env \<Rightarrow> store \<Rightarrow> nat \<Rightarrow> handlerRequest \<Rightarrow> event list \<times> (error + rvalue list)" where
  "metroHandler e st pid req =
    (let p = st pid in
     case asString (index (lun req) ''ID'') of
       None \<Rightarrow> ([], Inl (Panic ''interface conversion: lun[ID] is not string''))
     | Some localLunID \<Rightarrow>
        (case localCli req of
           None \<Rightarrow> ([], Inl (Panic ''nil client''))
         | Some lc \<Rightarrow>
            (case GetHyperMetroPairByLocalObjID e lc localLunID of
               Inl err \<Rightarrow> ([CallGetHyperMetroPair lc localLunID], Inl err)
             | Inr None \<Rightarrow>
                 ([CallGetHyperMetroPair lc localLunID],
                  Inl (Err (''hypermetro pair of LUN '' @ localLunID @ '' doesn't exist'')))
             | Inr (Some pair) \<Rightarrow>
                (let evs = CallGetHyperMetroPair lc localLunID #
                             pairStatusWarning (method req) pair localLunID;
                     localAttacher = NewAttacher (product p) (localCli req) (protocol p) ''csi''
                                       (portals p) (alua p)
                 in case metroRemotePlugin p of
                      None \<Rightarrow> (evs, Inl (Panic ''nil pointer dereference''))
                    | Some r \<Rightarrow>
                       (let remoteAttacher = NewAttacher (product (st r)) (metroCli req)
                                               (protocol (st r)) ''csi'' (portals (st r))
                                               (alua (st r));
                            metroAttacher = NewMetroAttacher localAttacher remoteAttacher
                                              (protocol p)
                        in case asString (index (lun req) ''NAME'') of
                             None \<Rightarrow>
                               (evs, Inl (Panic ''interface conversion: lun[NAME] is not string''))
                           | Some lunName \<Rightarrow>
                               (evs @ [CallReflect metroAttacher (method req) lunName
                                         (parameters req)],
                                Inr (ReflectCall e metroAttacher (method req) lunName
                                       (parameters req))))))))"

definition commonHandler ::
  "env \<Rightarrow> OceanstorSanPlugin \<Rightarrow> obj \<Rightarrow> obj \<Rightarrow> string \<Rightarrow> event list \<times> (error + rvalue list)"
  where
  "commonHandler e plugin l params m =
    (let commonAttacher = NewAttacher (product plugin) (Some (cli plugin)) (protocol plugin)
                            ''csi'' (portals plugin) (alua plugin)
     in case asString (index l ''NAME'') of
          None \<Rightarrow> ([], Inl (Err ''there is no NAME in lun info''))
        | Some lunName \<Rightarrow>
            ([CallReflect commonAttacher m lunName params],
             Inr (ReflectCall e commonAttacher m lunName params)))"

text \<open>Running a later step after the events of an earlier one.\<close>

definition after :: "event list \<Rightarrow> event list \<times> 'a \<Rightarrow> event list \<times> 'a" where
  "after evs r = (evs @ fst r, snd r)"

text \<open>
  \<^verbatim>\<open>handler\<close>. When the LUN is HyperMetro and no branch of the chain applies, the
  zero values \<^verbatim>\<open>(nil, nil)\<close> are returned: an empty result list and no error.
\<close>

definition handler ::
  "env \<Rightarrow> store \<Rightarrow> nat \<Rightarrow> handlerRequest \<Rightarrow> event list \<times> (error + rvalue list)" where
  "handler e st pid req =
    (let p = st pid; hm = isHyperMetro e (lun req) in
     if \<not> snd hm then
       after (fst hm) (commonHandler e p (lun req) (parameters req) (method req))
     else if storageOnline p \<and>
             (case metroRemotePlugin p of None \<Rightarrow> False | Some r \<Rightarrow> storageOnline (st r)) then
       after (fst hm) (metroHandler e st pid req)
     else if storageOnline p then
       (case asString (index (lun req) ''NAME'') of
          None \<Rightarrow> (fst hm, Inl (Panic ''interface conversion: lun[NAME] is not string''))
        | Some n \<Rightarrow>
            after (fst hm @
                   [LogWarning ''the lun %s is hyperMetro, but just the local storage is online''
                      [VStr n]])
              (commonHandler e p (lun req) (parameters req) (method req)))
     else
       (case metroRemotePlugin p of
          None \<Rightarrow> (fst hm, Inr [])
        | Some r \<Rightarrow>
            if storageOnline (st r) then
              (case asString (index (lun req) ''NAME'') of
                 None \<Rightarrow> (fst hm, Inl (Panic ''interface conversion: lun[NAME] is not string''))
               | Some n \<Rightarrow>
                   after (fst hm @
                          [LogWarning
                             ''the lun %s is hyperMetro, but just the remote storage is online''
                             [VStr n]])
                     (commonHandler e (st r) (lun req) (parameters req) (method req)))
            else (fst hm, Inr [])))"

definition getLunInfo ::
  "env \<Rightarrow> store \<Rightarrow> nat \<Rightarrow> client option \<Rightarrow> client option \<Rightarrow> string \<Rightarrow>
     event list \<times> (error + obj option)" where
  "getLunInfo e st pid lc rc lunName =
    (let p = st pid in
     if storageOnline p then
       (case lc of
          None \<Rightarrow> ([], Inl (Panic ''nil client''))
        | Some c \<Rightarrow> ([CallGetLunByName c lunName], GetLunByName e c lunName))
     else if (case metroRemotePlugin p of None \<Rightarrow> False | Some r \<Rightarrow> storageOnline (st r)) then
       (case rc of
          None \<Rightarrow> ([], Inl (Panic ''nil client''))
        | Some c \<Rightarrow> ([CallGetLunByName c lunName], GetLunByName e c lunName))
     else ([], Inl (Err ''both the local and remote storage are not online'')))"

text \<open>The clients a request carries: \<^verbatim>\<open>localCli\<close> is set only when the local array is
  online, \<^verbatim>\<open>metroCli\<close> only when a metro remote is bonded and online.\<close>

definition requestLocalCli :: "store \<Rightarrow> nat \<Rightarrow> client option" where
  "requestLocalCli st pid = (if storageOnline (st pid) then Some (cli (st pid)) else None)"

definition requestMetroCli :: "store \<Rightarrow> nat \<Rightarrow> client option" where
  "requestMetroCli st pid =
    (case metroRemotePlugin (st pid) of
       None \<Rightarrow> None
     | Some r \<Rightarrow> if storageOnline (st r) then Some (cli (st r)) else None)"

text \<open>
  The validation of a strategy result in \<^verbatim>\<open>AttachVolume\<close>: length, then the error
  slot (\<^verbatim>\<open>result.(error)\<close> is unchecked, so a non-nil value that is no error panics),
  then the checked assertion of the mapping slot.
\<close>

definition attachResult :: "string \<Rightarrow> rvalue list \<Rightarrow> error + obj" where
  "attachResult lunName out =
    (if length out \<noteq> reflectResultLength then
       Inl (Err (''attach volume '' @ lunName @ '' error''))
     else
       (case out ! 1 of
          RNil \<Rightarrow>
            (case out ! 0 of
               RMap connectInfo \<Rightarrow> Inr connectInfo
             | _ \<Rightarrow> Inl (Err (''controller attach volume '' @ lunName @ '' error'')))
        | RError m \<Rightarrow> Inl (Err m)
        | _ \<Rightarrow> Inl (Panic ''interface conversion: result is not error'')))"

text \<open>
  \<^verbatim>\<open>AttachVolume\<close>. \<^verbatim>\<open>utils.Errorf\<close> is outside these sources; it is taken to build
  the error from the formatted message.
\<close>

definition AttachVolume ::
  "env \<Rightarrow> store \<Rightarrow> nat \<Rightarrow> string \<Rightarrow> obj \<Rightarrow> event list \<times> (error + obj)" where
  "AttachVolume e st pid name params =
    (let lc = requestLocalCli st pid;
         mc = requestMetroCli st pid;
         lunName = MakeLunName e (cli (st pid)) name;
         li = getLunInfo e st pid lc mc lunName
     in case snd li of
          Inl (Panic m) \<Rightarrow> (fst li, Inl (Panic m))
        | Inl (Err m) \<Rightarrow>
            (fst li @ [LogError ''Get lun %s error: %v'' [VStr lunName, VStr m]], Inl (Err m))
        | Inr None \<Rightarrow> (fst li, Inl (Err (''Get empty lun info, lunName: '' @ lunName)))
        | Inr (Some l) \<Rightarrow>
           (let h = handler e st pid
                      \<lparr>localCli = lc, metroCli = mc, lun = l, parameters = params,
                       method = ''ControllerAttach''\<rparr>
            in case snd h of
                 Inl (Panic m) \<Rightarrow> (fst li @ fst h, Inl (Panic m))
               | Inl (Err m) \<Rightarrow>
                   (fst li @ fst h,
                    Inl (Err (''Storage connect for volume '' @ lunName @ '' error: '' @ m)))
               | Inr out \<Rightarrow> (fst li @ fst h, attachResult lunName out)))"

text \<open>The validation of a strategy result in \<^verbatim>\<open>DetachVolume\<close>: length and error slot
  only; \<open>None\<close> is the nil error.\<close>

definition detachResult :: "string \<Rightarrow> rvalue list \<Rightarrow> error option" where
  "detachResult lunName out =
    (if length out \<noteq> reflectResultLength then
       Some (Err (''detach volume '' @ lunName @ '' error''))
     else
       (case out ! 1 of
          RNil \<Rightarrow> None
        | RError m \<Rightarrow> Some (Err m)
        | _ \<Rightarrow> Some (Panic ''interface conversion: result is not error'')))"

definition DetachVolume ::
  "env \<Rightarrow> store \<Rightarrow> nat \<Rightarrow> string \<Rightarrow> obj \<Rightarrow> event list \<times> error option" where
  "DetachVolume e st pid name params =
    (let lc = requestLocalCli st pid;
         mc = requestMetroCli st pid;
         lunName = MakeLunName e (cli (st pid)) name;
         li = getLunInfo e st pid lc mc lunName
     in case snd li of
          Inl (Panic m) \<Rightarrow> (fst li, Some (Panic m))
        | Inl (Err m) \<Rightarrow>
            (fst li @ [LogError ''Get lun %s error: %v'' [VStr lunName, VStr m]], Some (Err m))
        | Inr None \<Rightarrow>
            (fst li @ [LogWarning ''LUN %s to detach doesn't exist'' [VStr lunName]], None)
        | Inr (Some l) \<Rightarrow>
           (let h = handler e st pid
                      \<lparr>localCli = lc, metroCli = mc, lun = l, parameters = params,
                       method = ''ControllerDetach''\<rparr>
            in case snd h of
                 Inl err \<Rightarrow> (fst li @ fst h, Some err)
               | Inr out \<Rightarrow> (fst li @ fst h, detachResult lunName out)))"

subsection \<open>Session reference counting\<close>

text \<open>
  \<^verbatim>\<open>mutexGetClient\<close> and \<^verbatim>\<open>mutexReleaseClient\<close> run under the plugin's mutex, so
  each is one atomic step on the store. The outcome of \<^verbatim>\<open>p.cli.Login\<close>, should it be
  called, is the first argument (\<open>None\<close> is the nil error). \<^verbatim>\<open>clientCount\<close> is a Go
  \<^verbatim>\<open>int\<close>, 64 bits wide on the platforms the driver is built for: a 64-bit word, whose
  increment and decrement wrap around as Go's do.
\<close>

definition mutexGetClient ::
  "error option \<Rightarrow> store \<Rightarrow> nat \<Rightarrow> event list \<times> (client \<times> error option) \<times> store" where
  "mutexGetClient loginResult st pid =
    (let p = st pid in
     if \<not> storageOnline p \<or> clientCount p = 0 then
       (let err = loginResult;
            p1 = p\<lparr>storageOnline := (err = None)\<rparr>;
            p2 = (if err = None then p1\<lparr>clientCount := clientCount p1 + 1\<rparr> else p1)
        in ([CallLogin (cli p) err], (cli p, err), st(pid := p2)))
     else ([], (cli p, None), st(pid := p\<lparr>clientCount := clientCount p + 1\<rparr>)))"

definition mutexReleaseClient :: "store \<Rightarrow> nat \<Rightarrow> client \<Rightarrow> event list \<times> store" where
  "mutexReleaseClient st plugin c =
    (let p = (st plugin)\<lparr>clientCount := clientCount (st plugin) - 1\<rparr> in
     if clientCount p = 0 then ([CallLogout c], st(plugin := p\<lparr>storageOnline := False\<rparr>))
     else ([], st(plugin := p)))"

text \<open>
  A sequence of session operations on one plugin, in the order the mutex serialises them;
  an acquire carries the outcome its login would have, a release passes the plugin's own
  client, as \<^verbatim>\<open>releaseClient\<close> does with the client \<^verbatim>\<open>getClient\<close> returned.
\<close>

datatype sessionOp = Acquire "error option" | Release

fun runSession :: "nat \<Rightarrow> sessionOp list \<Rightarrow> store \<Rightarrow> event list \<times> store" where
  "runSession pid [] st = ([], st)"
| "runSession pid (Acquire r # ops) st =
     (let g = mutexGetClient r st pid in after (fst g) (runSession pid ops (snd (snd g))))"
| "runSession pid (Release # ops) st =
     (let r = mutexReleaseClient st pid (cli (st pid)) in
      after (fst r) (runSession pid ops (snd r)))"

text \<open>An acquire succeeded when \<^verbatim>\<open>mutexGetClient\<close> returned the nil error.\<close>

definition acquired :: "error option \<Rightarrow> store \<Rightarrow> nat \<Rightarrow> bool" where
  "acquired r st pid = (snd (fst (snd (mutexGetClient r st pid))) = None)"

text \<open>
  Runs in which every release follows a successful acquire that is not yet released, with
  \<open>n\<close> such acquires outstanding at the start and none at the end. Acquires whose login
  fails may occur anywhere; they hold nothing.
\<close>

fun nested :: "nat \<Rightarrow> nat \<Rightarrow> sessionOp list \<Rightarrow> store \<Rightarrow> bool" where
  "nested pid n [] st = (n = 0)"
| "nested pid n (Acquire r # ops) st =
     nested pid (if acquired r st pid then Suc n else n) ops
       (snd (snd (mutexGetClient r st pid)))"
| "nested pid 0 (Release # ops) st = False"
| "nested pid (Suc n) (Release # ops) st =
     nested pid n ops (snd (mutexReleaseClient st pid (cli (st pid))))"

text \<open>The number of successful acquires of a run.\<close>

fun successes :: "nat \<Rightarrow> sessionOp list \<Rightarrow> store \<Rightarrow> nat" where
  "successes pid [] st = 0"
| "successes pid (Acquire r # ops) st =
     (if acquired r st pid then 1 else 0) +
     successes pid ops (snd (snd (mutexGetClient r st pid)))"
| "successes pid (Release # ops) st =
     successes pid ops (snd (mutexReleaseClient st pid (cli (st pid))))"

text \<open>The numbers of acquires and of releases in a sequence.\<close>

fun acquires :: "sessionOp list \<Rightarrow> nat" where
  "acquires [] = 0"
| "acquires (Acquire r # ops) = Suc (acquires ops)"
| "acquires (Release # ops) = acquires ops"

fun releases :: "sessionOp list \<Rightarrow> nat" where
  "releases [] = 0"
| "releases (Acquire r # ops) = releases ops"
| "releases (Release # ops) = Suc (releases ops)"

subsection \<open>Capabilities\<close>

text \<open>
  \<^verbatim>\<open>metroSupport == false\<close> compares an interface value with the bool false: it holds
  only of a bool that is false.
\<close>

definition updateHyperMetroCapability :: "store \<Rightarrow> nat \<Rightarrow> obj \<Rightarrow> obj" where
  "updateHyperMetroCapability st pid capabilities =
    (case capabilities ''SupportMetro'' of
       None \<Rightarrow> capabilities
     | Some metroSupport \<Rightarrow>
         if metroSupport = VBool False then capabilities
         else capabilities(''SupportMetro'' \<mapsto>
                VBool (case metroRemotePlugin (st pid) of
                         None \<Rightarrow> False
                       | Some r \<Rightarrow> storageOnline (st pid) \<and> storageOnline (st r))))"

definition updateReplicaCapability :: "store \<Rightarrow> nat \<Rightarrow> obj \<Rightarrow> obj" where
  "updateReplicaCapability st pid capabilities =
    (case capabilities ''SupportReplication'' of
       None \<Rightarrow> capabilities
     | Some metroReplica \<Rightarrow>
         if metroReplica = VBool False then capabilities
         else capabilities(''SupportReplication'' \<mapsto>
                VBool (replicaRemotePlugin (st pid) \<noteq> None)))"

text \<open>
  \<^verbatim>\<open>UpdateBackendCapabilities\<close>. The first argument is what the embedded base plugin's
  \<^verbatim>\<open>UpdateBackendCapabilities\<close> returns (it queries the array and is outside these
  sources): an error, or the capability and specification maps.
\<close>

definition UpdateBackendCapabilities ::
  "error + obj \<times> obj \<Rightarrow> store \<Rightarrow> nat \<Rightarrow> (error + obj \<times> obj) \<times> store" where
  "UpdateBackendCapabilities base st pid =
    (case base of
       Inl err \<Rightarrow> (Inl err, st(pid := (st pid)\<lparr>storageOnline := False\<rparr>))
     | Inr (capabilities, specifications) \<Rightarrow>
         (let st1 = st(pid := (st pid)\<lparr>storageOnline := True\<rparr>);
              c1 = updateHyperMetroCapability st1 pid capabilities;
              c2 = updateReplicaCapability st1 pid c1
          in (Inr (c2, specifications), st1)))"

subsection \<open>Validation of a configuration\<close>

text \<open>
  What \<^verbatim>\<open>Validate\<close> consumes from outside this file: \<^verbatim>\<open>proto.VerifyIscsiPortals\<close>,
  the base plugin's \<^verbatim>\<open>getNewClientConfig\<close> (given the plugin it is called on),
  \<^verbatim>\<open>client.NewClient\<close> (the handle of the client object it allocates) and that client's
  \<^verbatim>\<open>ValidateLogin\<close>. Messages that format an arbitrary value with \<^verbatim>\<open>%v\<close> are kept
  as their format string, without its line breaks.
\<close>

record 'cfg validateEnv =
  VerifyIscsiPortals :: "val list \<Rightarrow> error + string list"
  getNewClientConfig :: "OceanstorSanPlugin \<Rightarrow> obj \<Rightarrow> error + 'cfg"
  NewClient :: "'cfg \<Rightarrow> client"
  ValidateLogin :: "client \<Rightarrow> error option"

definition verifyOceanstorSanParam :: "'cfg validateEnv \<Rightarrow> obj \<Rightarrow> event list \<times> error option"
  where
  "verifyOceanstorSanParam ve config =
    (case asMap (index config ''parameters'') of
       None \<Rightarrow>
         ([LogError ''Verify parameters: [%v] failed. parameters must be provided''
             [index config ''parameters'']],
          Some (Err ''Verify parameters: [%v] failed. parameters must be provided''))
     | Some ps \<Rightarrow>
        (case asString (index ps ''protocol'') of
           None \<Rightarrow>
             ([LogError ''Verify protocol: [%v] failed. protocol must be provided and be one of [iscsi, fc, roce, fc-nvme] for oceanstor-san backend'' [index ps ''protocol'']],
              Some (Err ''Verify protocol: [%v] failed. protocol must be provided and be one of [iscsi, fc, roce, fc-nvme] for oceanstor-san backend''))
         | Some proto \<Rightarrow>
             if proto \<noteq> ''iscsi'' \<and> proto \<noteq> ''fc'' \<and> proto \<noteq> ''roce'' \<and> proto \<noteq> ''fc-nvme''
             then ([LogError ''Verify protocol: [%v] failed. protocol must be provided and be one of [iscsi, fc, roce, fc-nvme] for oceanstor-san backend'' [index ps ''protocol'']],
                   Some (Err ''Verify protocol: [%v] failed. protocol must be provided and be one of [iscsi, fc, roce, fc-nvme] for oceanstor-san backend''))
             else if proto = ''iscsi'' \<or> proto = ''roce'' then
               (case asList (index ps ''portals'') of
                  None \<Rightarrow>
                    ([LogError ''Verify portals: [%v] failed. portals are required to configure for iscsi or roce for oceanstor-san backend'' [index ps ''portals'']],
                     Some (Err ''Verify portals: [%v] failed. portals are required to configure for iscsi or roce for oceanstor-san backend''))
                | Some pts \<Rightarrow>
                    (case VerifyIscsiPortals ve pts of
                       Inl err \<Rightarrow> ([], Some err)
                     | Inr _ \<Rightarrow> ([], None)))
             else ([], None)))"

text \<open>\<^verbatim>\<open>Validate\<close> has a pointer receiver; the store it leaves is the third component.\<close>

definition Validate ::
  "'cfg validateEnv \<Rightarrow> store \<Rightarrow> nat \<Rightarrow> obj \<Rightarrow> event list \<times> error option \<times> store" where
  "Validate ve st pid param =
    (let start = [LogInfo ''Start to validate OceanstorSanPlugin parameters.'' []];
         v = verifyOceanstorSanParam ve param
     in case snd v of
          Some err \<Rightarrow> (start @ fst v, Some err, st)
        | None \<Rightarrow>
           (case getNewClientConfig ve (st pid) param of
              Inl err \<Rightarrow> (start @ fst v, Some err, st)
            | Inr clientConfig \<Rightarrow>
               (let c = NewClient ve clientConfig in
                case ValidateLogin ve c of
                  Some err \<Rightarrow> (start @ fst v @ [CallValidateLogin c (Some err)], Some err, st)
                | None \<Rightarrow>
                    (start @ fst v @ [CallValidateLogin c None, CallLogout c], None, st))))"

section \<open>The fusionstorage-san plugin\<close>

record FusionStorageSanPlugin =
  fs_hosts :: "string \<Rightarrow> string option"
  fs_protocol :: string
  fs_portals :: "string list"
  fs_alua :: obj
  fs_storageOnline :: bool
  fs_clientCount :: "64 word"

text \<open>
  \<^verbatim>\<open>FusionStorageSanPlugin.UpdateBackendCapabilities\<close>: the capability map, the
  specification map (\<open>None\<close> is the nil map), the error (\<open>None\<close> is nil), and the plugin
  as the call leaves it.
\<close>

definition FusionStorageSan_UpdateBackendCapabilities ::
  "FusionStorageSanPlugin \<Rightarrow> (obj \<times> obj option \<times> error option) \<times> FusionStorageSanPlugin" where
  "FusionStorageSan_UpdateBackendCapabilities p =
    (let capabilities =
           [''SupportThin'' \<mapsto> VBool True,
            ''SupportThick'' \<mapsto> VBool False,
            ''SupportQoS'' \<mapsto> VBool True,
            ''SupportClone'' \<mapsto> VBool True,
            ''SupportLabel'' \<mapsto> VBool False]
     in ((capabilities, None, None), p))"

section \<open>The controller entry points of the driver\<close>

datatype code = InvalidArgument | Internal | FailedPrecondition | Unimplemented

datatype status = Status code string

datatype response =
    DeleteVolumeResponse
  | ControllerUnpublishVolumeResponse
  | DeleteSnapshotResponse

text \<open>The methods of the \<^verbatim>\<open>plugin.Plugin\<close> interface that the teardown entry points call;
  each returns its error's message, or \<open>None\<close> for nil.\<close>

record pluginMethods =
  plugin_DeleteVolume :: "string \<Rightarrow> string option"
  plugin_DeleteDTreeVolume :: "obj \<Rightarrow> string option"
  plugin_DetachVolume :: "string \<Rightarrow> obj \<Rightarrow> string option"
  plugin_DeleteSnapshot :: "string \<Rightarrow> string \<Rightarrow> string option"

record Backend =
  Storage :: string
  Parameters :: obj
  Plugin :: pluginMethods

text \<open>
  Outside these sources: \<^verbatim>\<open>utils.SplitVolumeId\<close>, \<^verbatim>\<open>utils.SplitSnapshotId\<close>,
  \<^verbatim>\<open>backend.GetBackendWithFresh\<close> (\<open>None\<close> is the nil backend) and \<^verbatim>\<open>json.Unmarshal\<close>
  of the node information into a map.
\<close>

record driverEnv =
  SplitVolumeId :: "string \<Rightarrow> string \<times> string"
  SplitSnapshotId :: "string \<Rightarrow> string \<times> string \<times> string"
  GetBackendWithFresh :: "string \<Rightarrow> Backend option"
  jsonUnmarshalMap :: "string \<Rightarrow> string + obj"

definition DTreeStorage :: string where
  "DTreeStorage = ''oceanstor-dtree''"

definition Driver_DeleteVolume :: "driverEnv \<Rightarrow> string \<Rightarrow> event list \<times> (status + response)"
  where
  "Driver_DeleteVolume d volumeId =
    (let start = [LogInfo ''Start to delete volume %s'' [VStr volumeId]];
         backendName = fst (SplitVolumeId d volumeId);
         volName = snd (SplitVolumeId d volumeId)
     in case GetBackendWithFresh d backendName of
          None \<Rightarrow>
            (start @ [LogWarning ''Backend %s doesn't exist. Ignore this request and return success. CAUTION: volume need to manually delete from array.''
                        [VStr backendName]],
             Inr DeleteVolumeResponse)
        | Some backend \<Rightarrow>
           (let err = (if Storage backend = DTreeStorage then
                         plugin_DeleteDTreeVolume (Plugin backend)
                           [''parentname'' \<mapsto> index (Parameters backend) ''parentname'',
                            ''name'' \<mapsto> VStr volName]
                       else plugin_DeleteVolume (Plugin backend) volName)
            in case err of
                 Some m \<Rightarrow>
                   (start @ [LogError ''Delete volume %s error: %v'' [VStr volumeId, VStr m]],
                    Inl (Status Internal m))
               | None \<Rightarrow>
                   (start @ [LogInfo ''Volume %s is deleted'' [VStr volumeId]],
                    Inr DeleteVolumeResponse)))"

definition Driver_ControllerUnpublishVolume ::
  "driverEnv \<Rightarrow> string \<Rightarrow> string \<Rightarrow> event list \<times> (status + response)" where
  "Driver_ControllerUnpublishVolume d volumeId nodeInfo =
    (let start = [LogInfo ''Start to controller unpublish volume %s from node %s''
                    [VStr volumeId, VStr nodeInfo]];
         backendName = fst (SplitVolumeId d volumeId);
         volName = snd (SplitVolumeId d volumeId)
     in case GetBackendWithFresh d backendName of
          None \<Rightarrow>
            (start @ [LogWarning ''Backend %s doesn't exist. Ignore this request and return success. CAUTION: volume %s need to manually detach from array.''
                        [VStr backendName, VStr volName]],
             Inr ControllerUnpublishVolumeResponse)
        | Some backend \<Rightarrow>
           (case jsonUnmarshalMap d nodeInfo of
              Inl m \<Rightarrow>
                (start @ [LogError ''Unmarshal node info of %s error: %v'' [VStr nodeInfo, VStr m]],
                 Inl (Status Internal m))
            | Inr ps \<Rightarrow>
               (case plugin_DetachVolume (Plugin backend) volName ps of
                  Some m \<Rightarrow>
                    (start @ [LogError ''Unpublish volume %s from node %s error: %v''
                                [VStr volName, VStr nodeInfo, VStr m]],
                     Inl (Status Internal m))
                | None \<Rightarrow>
                    (start @ [LogInfo ''Volume %s is controller unpublished from node %s''
                                [VStr volumeId, VStr nodeInfo]],
                     Inr ControllerUnpublishVolumeResponse))))"

definition Driver_DeleteSnapshot :: "driverEnv \<Rightarrow> string \<Rightarrow> event list \<times> (status + response)"
  where
  "Driver_DeleteSnapshot d snapshotId =
    (if snapshotId = [] then ([], Inl (Status InvalidArgument ''Snapshot ID missing in request''))
     else
       (let start = [LogInfo ''Start to Delete snapshot %s.'' [VStr snapshotId]];
            backendName = fst (SplitSnapshotId d snapshotId);
            snapshotParentId = fst (snd (SplitSnapshotId d snapshotId));
            snapshotName = snd (snd (SplitSnapshotId d snapshotId))
        in case GetBackendWithFresh d backendName of
             None \<Rightarrow>
               (start @ [LogWarning ''Backend %s doesn't exist. Ignore this request and return success. CAUTION: snapshot need to manually delete from array.''
                           [VStr backendName]],
                Inr DeleteSnapshotResponse)
           | Some backend \<Rightarrow>
              (case plugin_DeleteSnapshot (Plugin backend) snapshotParentId snapshotName of
                 Some m \<Rightarrow>
                   (start @ [LogError ''Delete snapshot %s error: %v'' [VStr snapshotName, VStr m]],
                    Inl (Status Internal m))
               | None \<Rightarrow>
                   (start @ [LogInfo ''Finish to Delete snapshot %s'' [VStr snapshotId]],
                    Inr DeleteSnapshotResponse))))"

section \<open>Observations on results and traces\<close>

text \<open>The \<^verbatim>\<open>SupportMetro\<close> entry of a capability report; an error reports nothing.\<close>

definition reportedMetro :: "error + obj \<times> obj \<Rightarrow> val option" where
  "reportedMetro r = (case r of Inl _ \<Rightarrow> None | Inr (c, s) \<Rightarrow> c ''SupportMetro'')"

text \<open>Whether an event is a session call (login, login probe, logout) on the given client.\<close>

definition touches :: "client \<Rightarrow> event \<Rightarrow> bool" where
  "touches c ev =
    (case ev of
       CallLogin c' r \<Rightarrow> c' = c
     | CallLogout c' \<Rightarrow> c' = c
     | CallValidateLogin c' r \<Rightarrow> c' = c
     | _ \<Rightarrow> False)"

text \<open>A trace that ends on the logout of the given client, or on a login of it that failed.\<close>

definition endsLoggedOut :: "client \<Rightarrow> event list \<Rightarrow> bool" where
  "endsLoggedOut c evs \<longleftrightarrow>
     (\<exists>pre. evs = pre @ [CallLogout c]) \<or> (\<exists>pre err. evs = pre @ [CallLogin c (Some err)])"

section \<open>A concrete deployment\<close>

text \<open>
  Two bonded arrays used to run the definitions on concrete inputs: plugin \<open>A\<close> at address
  0 and plugin \<open>B\<close> at every other address, each the metro remote of the other. Volume
  \<open>v1\<close> carries an active HyperMetro relationship and has a pair in running status normal,
  \<open>v2\<close> carries a relationship blob that is not JSON, and no other volume exists.
\<close>

definition pluginA :: OceanstorSanPlugin where
  "pluginA = \<lparr>cli = 10, product = ''DoradoV6'', protocol = ''iscsi'',
              portals = [''192.168.1.10''], alua = Map.empty, replicaRemotePlugin = None,
              metroRemotePlugin = Some 1, storageOnline = True, clientCount = 0\<rparr>"

definition pluginB :: OceanstorSanPlugin where
  "pluginB = \<lparr>cli = 11, product = ''DoradoV6'', protocol = ''fc'',
              portals = [], alua = Map.empty, replicaRemotePlugin = None,
              metroRemotePlugin = Some 0, storageOnline = True, clientCount = 0\<rparr>"

definition bonded :: "bool \<Rightarrow> bool \<Rightarrow> store" where
  "bonded onA onB =
    (\<lambda>a. if a = 0 then pluginA\<lparr>storageOnline := onA\<rparr> else pluginB\<lparr>storageOnline := onB\<rparr>)"

definition metroLun :: obj where
  \<open>metroLun = [''ID'' \<mapsto> VStr ''7'', ''NAME'' \<mapsto> VStr ''v1'',
               ''HASRSSOBJECT'' \<mapsto> VStr ''{"HyperMetro":"TRUE"}'']\<close>

definition brokenLun :: obj where
  \<open>brokenLun = [''ID'' \<mapsto> VStr ''8'', ''NAME'' \<mapsto> VStr ''v2'',
                ''HASRSSOBJECT'' \<mapsto> VStr ''{"HyperMetro":'']\<close>

definition normalPair :: obj where
  "normalPair = [''ID'' \<mapsto> VStr ''70'', ''RUNNINGSTATUS'' \<mapsto> VStr ''1'']"

definition connectInfo1 :: obj where
  "connectInfo1 = [''tgtLunWWN'' \<mapsto> VStr ''6001'']"

definition arrays :: "rvalue list \<Rightarrow> env" where
  \<open>arrays out =
    \<lparr>MakeLunName = (\<lambda>c n. n),
     GetLunByName = (\<lambda>c n. if n = ''v1'' then Inr (Some metroLun)
                            else if n = ''v2'' then Inr (Some brokenLun) else Inr None),
     GetHyperMetroPairByLocalObjID = (\<lambda>c i. if i = ''7'' then Inr (Some normalPair) else Inr None),
     ReflectCall = (\<lambda>a m n ps. out),
     jsonUnmarshal = (\<lambda>s. if s = ''{"HyperMetro":"TRUE"}'' then Some [''HyperMetro'' \<mapsto> ''TRUE'']
                           else None)\<rparr>\<close>

definition attachRequest :: "store \<Rightarrow> obj \<Rightarrow> handlerRequest" where
  "attachRequest st l =
    \<lparr>localCli = requestLocalCli st 0, metroCli = requestMetroCli st 0, lun = l,
     parameters = Map.empty, method = ''ControllerAttach''\<rparr>"

text \<open>A validation environment whose login probe has the given outcome; the throwaway client
  it allocates has handle 99.\<close>

definition probing :: "error option \<Rightarrow> unit validateEnv" where
  "probing r =
    \<lparr>VerifyIscsiPortals = (\<lambda>ps. Inr []), getNewClientConfig = (\<lambda>p param. Inr ()),
     NewClient = (\<lambda>cfg. 99), ValidateLogin = (\<lambda>c. r)\<rparr>"

definition fcConfig :: obj where
  "fcConfig = [''parameters'' \<mapsto> VMap [''protocol'' \<mapsto> VStr ''fc'']]"

definition metroCaps :: obj where
  "metroCaps = [''SupportMetro'' \<mapsto> VBool True]"

text \<open>A driver in which no backend is registered.\<close>

definition noBackends :: driverEnv where
  "noBackends =
    \<lparr>SplitVolumeId = (\<lambda>s. (takeWhile (\<lambda>c. c \<noteq> CHR ''.'') s,
                           drop 1 (dropWhile (\<lambda>c. c \<noteq> CHR ''.'') s))),
     SplitSnapshotId = (\<lambda>s. (takeWhile (\<lambda>c. c \<noteq> CHR ''.'') s, [], [])),
     GetBackendWithFresh = (\<lambda>n. None),
     jsonUnmarshalMap = (\<lambda>s. Inr Map.empty)\<rparr>"

section \<open>Basic facts\<close>

lemma after_Nil: "after [] r = r"
  by (simp add: after_def)

lemma after_fst: "fst (after evs r) = evs @ fst r"
  by (simp add: after_def)

lemma after_snd: "snd (after evs r) = snd r"
  by (simp add: after_def)

lemma isHyperMetro_true_silent: "snd (isHyperMetro e l) \<Longrightarrow> fst (isHyperMetro e l) = []"
  by (auto simp: isHyperMetro_def split: option.splits)

lemma isHyperMetro_malformed:
  assumes "l ''HASRSSOBJECT'' = None \<or>
           (\<exists>v. l ''HASRSSOBJECT'' = Some v \<and> asString v = None) \<or>
           (\<exists>s. l ''HASRSSOBJECT'' = Some (VStr s) \<and> jsonUnmarshal e s = None)"
  shows "\<not> snd (isHyperMetro e l)"
  using assms by (auto simp: isHyperMetro_def index_def split: option.splits)

lemma getLunInfo_absent:
  assumes "(storageOnline (st pid) \<and> GetLunByName e (cli (st pid)) n = Inr None) \<or>
           (\<not> storageOnline (st pid) \<and>
            (\<exists>r. metroRemotePlugin (st pid) = Some r \<and> storageOnline (st r) \<and>
                 GetLunByName e (cli (st r)) n = Inr None))"
  shows "snd (getLunInfo e st pid (requestLocalCli st pid) (requestMetroCli st pid) n) = Inr None"
  using assms by (auto simp: getLunInfo_def requestLocalCli_def requestMetroCli_def Let_def)

lemma attachResult_ok:
  "attachResult n out = Inr m \<longleftrightarrow> (length out = 2 \<and> out ! 1 = RNil \<and> out ! 0 = RMap m)"
  by (auto simp: attachResult_def reflectResultLength_def split: rvalue.splits)

lemma detachResult_ok: "detachResult n out = None \<longleftrightarrow> (length out = 2 \<and> out ! 1 = RNil)"
  by (auto simp: detachResult_def reflectResultLength_def split: rvalue.splits)

section \<open>Dispatch of attach, detach and unstage\<close>

text \<open>
  Claim C1. For a request whose LUN is HyperMetro-active (and carries its name), whatever
  the method (attach, detach or unstage): with the local array online and a metro remote
  bonded and online, \<open>handler\<close> is the dual-array \<open>metroHandler\<close>; with only the local
  array online it is \<open>commonHandler\<close> on the local plugin, after a warning; with only the
  remote online it is \<open>commonHandler\<close> on the remote plugin, after a warning. With neither
  online, \<open>AttachVolume\<close> and \<open>DetachVolume\<close> fail with the error "both the local and
  remote storage are not online"; their trace is the one error log line, so no array is
  queried and no handler runs.
\<close>

theorem handler_dispatch_table:
  assumes hm: "snd (isHyperMetro e (lun req))"
      and nm: "asString (index (lun req) ''NAME'') = Some n"
  shows "(storageOnline (st pid) \<and> metroRemotePlugin (st pid) = Some r \<and> storageOnline (st r) \<longrightarrow>
            handler e st pid req = metroHandler e st pid req) \<and>
         (storageOnline (st pid) \<and>
          (metroRemotePlugin (st pid) = None \<or>
           metroRemotePlugin (st pid) = Some r \<and> \<not> storageOnline (st r)) \<longrightarrow>
            handler e st pid req =
              after [LogWarning ''the lun %s is hyperMetro, but just the local storage is online''
                       [VStr n]]
                (commonHandler e (st pid) (lun req) (parameters req) (method req))) \<and>
         (\<not> storageOnline (st pid) \<and> metroRemotePlugin (st pid) = Some r \<and> storageOnline (st r) \<longrightarrow>
            handler e st pid req =
              after [LogWarning ''the lun %s is hyperMetro, but just the remote storage is online''
                       [VStr n]]
                (commonHandler e (st r) (lun req) (parameters req) (method req))) \<and>
         (\<not> storageOnline (st pid) \<and>
          (metroRemotePlugin (st pid) = None \<or>
           metroRemotePlugin (st pid) = Some r \<and> \<not> storageOnline (st r)) \<longrightarrow>
            AttachVolume e st pid name params =
              ([LogError ''Get lun %s error: %v''
                  [VStr (MakeLunName e (cli (st pid)) name),
                   VStr ''both the local and remote storage are not online'']],
               Inl (Err ''both the local and remote storage are not online'')) \<and>
            DetachVolume e st pid name params =
              ([LogError ''Get lun %s error: %v''
                  [VStr (MakeLunName e (cli (st pid)) name),
                   VStr ''both the local and remote storage are not online'']],
               Some (Err ''both the local and remote storage are not online'')))"
proof -
  have silent: "fst (isHyperMetro e (lun req)) = []"
    using hm by (rule isHyperMetro_true_silent)
  have both: "storageOnline (st pid) \<and> metroRemotePlugin (st pid) = Some r \<and> storageOnline (st r) \<longrightarrow>
            handler e st pid req = metroHandler e st pid req"
    using hm silent by (simp add: handler_def Let_def after_Nil)
  have local: "storageOnline (st pid) \<and>
          (metroRemotePlugin (st pid) = None \<or>
           metroRemotePlugin (st pid) = Some r \<and> \<not> storageOnline (st r)) \<longrightarrow>
            handler e st pid req =
              after [LogWarning ''the lun %s is hyperMetro, but just the local storage is online''
                       [VStr n]]
                (commonHandler e (st pid) (lun req) (parameters req) (method req))"
    using hm silent nm by (auto simp add: handler_def Let_def)
  have remote: "\<not> storageOnline (st pid) \<and> metroRemotePlugin (st pid) = Some r \<and> storageOnline (st r) \<longrightarrow>
            handler e st pid req =
              after [LogWarning ''the lun %s is hyperMetro, but just the remote storage is online''
                       [VStr n]]
                (commonHandler e (st r) (lun req) (parameters req) (method req))"
    using hm silent nm by (auto simp add: handler_def Let_def)
  have neither: "\<not> storageOnline (st pid) \<and>
          (metroRemotePlugin (st pid) = None \<or>
           metroRemotePlugin (st pid) = Some r \<and> \<not> storageOnline (st r)) \<longrightarrow>
            AttachVolume e st pid name params =
              ([LogError ''Get lun %s error: %v''
                  [VStr (MakeLunName e (cli (st pid)) name),
                   VStr ''both the local and remote storage are not online'']],
               Inl (Err ''both the local and remote storage are not online'')) \<and>
            DetachVolume e st pid name params =
              ([LogError ''Get lun %s error: %v''
                  [VStr (MakeLunName e (cli (st pid)) name),
                   VStr ''both the local and remote storage are not online'']],
               Some (Err ''both the local and remote storage are not online''))"
    by (auto simp add: AttachVolume_def DetachVolume_def getLunInfo_def Let_def)
  from both local remote neither show ?thesis by blast
qed

theorem handler_dispatch_table_witness:
  "snd (isHyperMetro (arrays []) metroLun) \<and>
   asString (index metroLun ''NAME'') = Some ''v1'' \<and>
   handler (arrays []) (bonded True True) 0 (attachRequest (bonded True True) metroLun) =
     metroHandler (arrays []) (bonded True True) 0 (attachRequest (bonded True True) metroLun) \<and>
   handler (arrays []) (bonded True False) 0 (attachRequest (bonded True False) metroLun) =
     after [LogWarning ''the lun %s is hyperMetro, but just the local storage is online''
              [VStr ''v1'']]
       (commonHandler (arrays []) (bonded True False 0) metroLun Map.empty ''ControllerAttach'') \<and>
   handler (arrays []) (bonded False True) 0 (attachRequest (bonded False True) metroLun) =
     after [LogWarning ''the lun %s is hyperMetro, but just the remote storage is online''
              [VStr ''v1'']]
       (commonHandler (arrays []) (bonded False True 1) metroLun Map.empty ''ControllerAttach'') \<and>
   AttachVolume (arrays []) (bonded False False) 0 ''v1'' Map.empty =
     ([LogError ''Get lun %s error: %v''
         [VStr ''v1'', VStr ''both the local and remote storage are not online'']],
      Inl (Err ''both the local and remote storage are not online''))"
proof -
  have hm: "snd (isHyperMetro (arrays []) metroLun)"
    by (simp add: isHyperMetro_def arrays_def metroLun_def index_def)
  have nm: "asString (index metroLun ''NAME'') = Some ''v1''"
    by (simp add: metroLun_def index_def)
  have req: "lun (attachRequest st metroLun) = metroLun"
            "parameters (attachRequest st metroLun) = Map.empty"
            "method (attachRequest st metroLun) = ''ControllerAttach''" for st
    by (simp_all add: attachRequest_def)
  have flags: "storageOnline (bonded a b 0) = a" "storageOnline (bonded a b (Suc 0)) = b"
              "metroRemotePlugin (bonded a b 0) = Some 1" "cli (bonded a b 0) = 10" for a b
    by (simp_all add: bonded_def pluginA_def pluginB_def)
  have mk: "MakeLunName (arrays []) 10 ''v1'' = ''v1''"
    by (simp add: arrays_def)
  note t = handler_dispatch_table [where e = "arrays []" and n = "''v1''" and pid = 0 and r = 1
             and name = "''v1''" and params = Map.empty]
  from t [of "attachRequest (bonded True True) metroLun" "bonded True True"] hm nm
  have both: "handler (arrays []) (bonded True True) 0 (attachRequest (bonded True True) metroLun) =
     metroHandler (arrays []) (bonded True True) 0 (attachRequest (bonded True True) metroLun)"
    by (simp add: req flags)
  from t [of "attachRequest (bonded True False) metroLun" "bonded True False"] hm nm
  have local: "handler (arrays []) (bonded True False) 0
                 (attachRequest (bonded True False) metroLun) =
     after [LogWarning ''the lun %s is hyperMetro, but just the local storage is online''
              [VStr ''v1'']]
       (commonHandler (arrays []) (bonded True False 0) metroLun Map.empty ''ControllerAttach'')"
    by (simp add: req flags)
  from t [of "attachRequest (bonded False True) metroLun" "bonded False True"] hm nm
  have remote: "handler (arrays []) (bonded False True) 0
                  (attachRequest (bonded False True) metroLun) =
     after [LogWarning ''the lun %s is hyperMetro, but just the remote storage is online''
              [VStr ''v1'']]
       (commonHandler (arrays []) (bonded False True 1) metroLun Map.empty ''ControllerAttach'')"
    by (simp add: req flags)
  from t [of "attachRequest (bonded False False) metroLun" "bonded False False"] hm nm
  have neither: "AttachVolume (arrays []) (bonded False False) 0 ''v1'' Map.empty =
     ([LogError ''Get lun %s error: %v''
         [VStr ''v1'', VStr ''both the local and remote storage are not online'']],
      Inl (Err ''both the local and remote storage are not online''))"
    by (simp add: req flags mk)
  from hm nm both local remote neither show ?thesis by blast
qed

section \<open>The dual-array handler\<close>

text \<open>
  Claim C3. In \<open>metroHandler\<close> (on a LUN that carries its ID, through the local client)
  the HyperMetro pair is fetched first. If the fetch fails or finds no pair, the call ends
  with an error right after the fetch, and no attacher is invoked. If a pair exists (and
  the metro remote is bonded and the LUN carries its name), the trace is the fetch, then
  the status warning if any, then the call of the requested method on the metro attacher,
  whose result is returned: the operation is executed whatever the running status. For
  detach and unstage no warning is logged exactly when the status is normal ("1") or
  paused ("41"); for attach exactly when it is normal; otherwise one warning is logged.
\<close>

theorem metroHandler_pair_first:
  assumes idl: "asString (index (lun req) ''ID'') = Some i"
      and lc: "localCli req = Some c"
  shows "(\<forall>err. GetHyperMetroPairByLocalObjID e c i = Inl err \<longrightarrow>
            metroHandler e st pid req = ([CallGetHyperMetroPair c i], Inl err)) \<and>
         (GetHyperMetroPairByLocalObjID e c i = Inr None \<longrightarrow>
            metroHandler e st pid req =
              ([CallGetHyperMetroPair c i],
               Inl (Err (''hypermetro pair of LUN '' @ i @ '' doesn't exist'')))) \<and>
         (\<forall>pair r n.
            GetHyperMetroPairByLocalObjID e c i = Inr (Some pair) \<and>
            metroRemotePlugin (st pid) = Some r \<and>
            asString (index (lun req) ''NAME'') = Some n \<longrightarrow>
              metroHandler e st pid req =
                (CallGetHyperMetroPair c i # pairStatusWarning (method req) pair i @
                 [CallReflect
                    (NewMetroAttacher
                       (NewAttacher (product (st pid)) (localCli req) (protocol (st pid)) ''csi''
                          (portals (st pid)) (alua (st pid)))
                       (NewAttacher (product (st r)) (metroCli req) (protocol (st r)) ''csi''
                          (portals (st r)) (alua (st r)))
                       (protocol (st pid)))
                    (method req) n (parameters req)],
                 Inr (ReflectCall e
                    (NewMetroAttacher
                       (NewAttacher (product (st pid)) (localCli req) (protocol (st pid)) ''csi''
                          (portals (st pid)) (alua (st pid)))
                       (NewAttacher (product (st r)) (metroCli req) (protocol (st r)) ''csi''
                          (portals (st r)) (alua (st r)))
                       (protocol (st pid)))
                    (method req) n (parameters req)))) \<and>
         (\<forall>pair m. m = ''ControllerDetach'' \<or> m = ''NodeUnstage'' \<longrightarrow>
            pairStatusWarning m pair i =
              (if index pair ''RUNNINGSTATUS'' = VStr ''1'' \<or>
                  index pair ''RUNNINGSTATUS'' = VStr ''41''
               then []
               else [LogWarning ''hypermetro pair status of LUN %s is not normal or pause''
                       [VStr i]])) \<and>
         (\<forall>pair. pairStatusWarning ''ControllerAttach'' pair i =
              (if index pair ''RUNNINGSTATUS'' = VStr ''1'' then []
               else [LogWarning ''hypermetro pair status of LUN %s is not normal'' [VStr i]]))"
proof -
  have failed: "\<forall>err. GetHyperMetroPairByLocalObjID e c i = Inl err \<longrightarrow>
            metroHandler e st pid req = ([CallGetHyperMetroPair c i], Inl err)"
    using idl lc by (simp add: metroHandler_def Let_def)
  have missing: "GetHyperMetroPairByLocalObjID e c i = Inr None \<longrightarrow>
            metroHandler e st pid req =
              ([CallGetHyperMetroPair c i],
               Inl (Err (''hypermetro pair of LUN '' @ i @ '' doesn't exist'')))"
    using idl lc by (simp add: metroHandler_def Let_def)
  have found: "\<forall>pair r n.
            GetHyperMetroPairByLocalObjID e c i = Inr (Some pair) \<and>
            metroRemotePlugin (st pid) = Some r \<and>
            asString (index (lun req) ''NAME'') = Some n \<longrightarrow>
              metroHandler e st pid req =
                (CallGetHyperMetroPair c i # pairStatusWarning (method req) pair i @
                 [CallReflect
                    (NewMetroAttacher
                       (NewAttacher (product (st pid)) (localCli req) (protocol (st pid)) ''csi''
                          (portals (st pid)) (alua (st pid)))
                       (NewAttacher (product (st r)) (metroCli req) (protocol (st r)) ''csi''
                          (portals (st r)) (alua (st r)))
                       (protocol (st pid)))
                    (method req) n (parameters req)],
                 Inr (ReflectCall e
                    (NewMetroAttacher
                       (NewAttacher (product (st pid)) (localCli req) (protocol (st pid)) ''csi''
                          (portals (st pid)) (alua (st pid)))
                       (NewAttacher (product (st r)) (metroCli req) (protocol (st r)) ''csi''
                          (portals (st r)) (alua (st r)))
                       (protocol (st pid)))
                    (method req) n (parameters req)))"
    using idl lc by (simp add: metroHandler_def Let_def)
  have teardown: "\<forall>pair m. m = ''ControllerDetach'' \<or> m = ''NodeUnstage'' \<longrightarrow>
            pairStatusWarning m pair i =
              (if index pair ''RUNNINGSTATUS'' = VStr ''1'' \<or>
                  index pair ''RUNNINGSTATUS'' = VStr ''41''
               then []
               else [LogWarning ''hypermetro pair status of LUN %s is not normal or pause''
                       [VStr i]])"
    by (auto simp add: pairStatusWarning_def hyperMetroPairRunningStatusNormal_def
        hyperMetroPairRunningStatusPause_def)
  have attach: "\<forall>pair. pairStatusWarning ''ControllerAttach'' pair i =
              (if index pair ''RUNNINGSTATUS'' = VStr ''1'' then []
               else [LogWarning ''hypermetro pair status of LUN %s is not normal'' [VStr i]])"
    by (simp add: pairStatusWarning_def hyperMetroPairRunningStatusNormal_def)
  from failed missing found teardown attach show ?thesis by blast
qed

theorem metroHandler_pair_first_witness:
  "asString (index metroLun ''ID'') = Some ''7'' \<and>
   localCli (attachRequest (bonded True True) metroLun) = Some 10 \<and>
   metroHandler (arrays [RMap connectInfo1, RNil]) (bonded True True) 0
       (attachRequest (bonded True True) metroLun) =
     ([CallGetHyperMetroPair 10 ''7'',
       CallReflect
         (NewMetroAttacher
            (NewAttacher ''DoradoV6'' (Some 10) ''iscsi'' ''csi'' [''192.168.1.10''] Map.empty)
            (NewAttacher ''DoradoV6'' (Some 11) ''fc'' ''csi'' [] Map.empty) ''iscsi'')
         ''ControllerAttach'' ''v1'' Map.empty],
      Inr [RMap connectInfo1, RNil]) \<and>
   asString (index brokenLun ''ID'') = Some ''8'' \<and>
   metroHandler (arrays [RMap connectInfo1, RNil]) (bonded True True) 0
       (attachRequest (bonded True True) brokenLun) =
     ([CallGetHyperMetroPair 10 ''8''], Inl (Err ''hypermetro pair of LUN 8 doesn't exist''))"
proof -
  let ?e = "arrays [RMap connectInfo1, RNil]"
  let ?st = "bonded True True"
  have id7: "asString (index metroLun ''ID'') = Some ''7''"
    by (simp add: metroLun_def index_def)
  have id8: "asString (index brokenLun ''ID'') = Some ''8''"
    by (simp add: brokenLun_def index_def)
  have nm: "asString (index metroLun ''NAME'') = Some ''v1''"
    by (simp add: metroLun_def index_def)
  have req: "lun (attachRequest ?st l) = l" "localCli (attachRequest ?st l) = Some 10"
            "metroCli (attachRequest ?st l) = Some 11"
            "parameters (attachRequest ?st l) = Map.empty"
            "method (attachRequest ?st l) = ''ControllerAttach''" for l
    by (simp_all add: attachRequest_def requestLocalCli_def requestMetroCli_def bonded_def
        pluginA_def pluginB_def)
  have pr: "GetHyperMetroPairByLocalObjID ?e 10 ''7'' = Inr (Some normalPair)"
           "GetHyperMetroPairByLocalObjID ?e 10 ''8'' = Inr None"
           "ReflectCall ?e a m n ps = [RMap connectInfo1, RNil]" for a m n ps
    by (simp_all add: arrays_def)
  have A: "product (?st 0) = ''DoradoV6''" "protocol (?st 0) = ''iscsi''"
          "portals (?st 0) = [''192.168.1.10'']" "alua (?st 0) = Map.empty"
          "metroRemotePlugin (?st 0) = Some 1"
    by (simp_all add: bonded_def pluginA_def)
  have B: "product (?st (Suc 0)) = ''DoradoV6''" "protocol (?st (Suc 0)) = ''fc''"
          "portals (?st (Suc 0)) = []" "alua (?st (Suc 0)) = Map.empty"
    by (simp_all add: bonded_def pluginB_def)
  have st: "index normalPair ''RUNNINGSTATUS'' = VStr ''1''"
    by (simp add: normalPair_def index_def)
  from metroHandler_pair_first [of "attachRequest ?st metroLun" "''7''" 10 ?e ?st 0]
  have found: "metroHandler ?e ?st 0 (attachRequest ?st metroLun) =
     ([CallGetHyperMetroPair 10 ''7'',
       CallReflect
         (NewMetroAttacher
            (NewAttacher ''DoradoV6'' (Some 10) ''iscsi'' ''csi'' [''192.168.1.10''] Map.empty)
            (NewAttacher ''DoradoV6'' (Some 11) ''fc'' ''csi'' [] Map.empty) ''iscsi'')
         ''ControllerAttach'' ''v1'' Map.empty],
      Inr [RMap connectInfo1, RNil])"
    using id7 nm st by (simp add: req pr A B)
  from metroHandler_pair_first [of "attachRequest ?st brokenLun" "''8''" 10 ?e ?st 0]
  have missing: "metroHandler ?e ?st 0 (attachRequest ?st brokenLun) =
     ([CallGetHyperMetroPair 10 ''8''], Inl (Err ''hypermetro pair of LUN 8 doesn't exist''))"
    using id8 by (simp add: req pr)
  from id7 id8 req(2) found missing show ?thesis by blast
qed

section \<open>Malformed relationship blobs\<close>

text \<open>
  Claim C4. For a LUN whose \<^verbatim>\<open>HASRSSOBJECT\<close> entry is missing, is not a string, or is a
  string that does not parse as JSON, \<open>isHyperMetro\<close> is false and \<open>handler\<close> is
  \<open>commonHandler\<close> on the local plugin (after the error log line of the check), whatever
  the online flags. The operation can then succeed: with the local array online, such a LUN
  found under its name, and an attacher result of a mapping and a nil error,
  \<open>AttachVolume\<close> returns the mapping.
\<close>

theorem malformed_relationship_fails_open:
  assumes bad: "l ''HASRSSOBJECT'' = None \<or>
           (\<exists>v. l ''HASRSSOBJECT'' = Some v \<and> asString v = None) \<or>
           (\<exists>s. l ''HASRSSOBJECT'' = Some (VStr s) \<and> jsonUnmarshal e s = None)"
  shows "\<not> snd (isHyperMetro e l) \<and>
         (\<forall>req. lun req = l \<longrightarrow>
            handler e st pid req =
              after (fst (isHyperMetro e l))
                (commonHandler e (st pid) l (parameters req) (method req))) \<and>
         (\<forall>n m. storageOnline (st pid) \<and>
            GetLunByName e (cli (st pid)) (MakeLunName e (cli (st pid)) name) = Inr (Some l) \<and>
            asString (index l ''NAME'') = Some n \<and>
            ReflectCall e
              (NewAttacher (product (st pid)) (Some (cli (st pid))) (protocol (st pid)) ''csi''
                 (portals (st pid)) (alua (st pid)))
              ''ControllerAttach'' n params = [RMap m, RNil] \<longrightarrow>
            snd (AttachVolume e st pid name params) = Inr m)"
proof -
  have nm: "\<not> snd (isHyperMetro e l)"
    using bad by (rule isHyperMetro_malformed)
  have local: "\<forall>req. lun req = l \<longrightarrow>
            handler e st pid req =
              after (fst (isHyperMetro e l))
                (commonHandler e (st pid) l (parameters req) (method req))"
    using nm by (simp add: handler_def Let_def)
  have succeeds: "\<forall>n m. storageOnline (st pid) \<and>
            GetLunByName e (cli (st pid)) (MakeLunName e (cli (st pid)) name) = Inr (Some l) \<and>
            asString (index l ''NAME'') = Some n \<and>
            ReflectCall e
              (NewAttacher (product (st pid)) (Some (cli (st pid))) (protocol (st pid)) ''csi''
                 (portals (st pid)) (alua (st pid)))
              ''ControllerAttach'' n params = [RMap m, RNil] \<longrightarrow>
            snd (AttachVolume e st pid name params) = Inr m"
    using local
    by (simp add: AttachVolume_def Let_def getLunInfo_def requestLocalCli_def after_snd
        commonHandler_def attachResult_def reflectResultLength_def)
  from nm local succeeds show ?thesis by blast
qed

theorem malformed_relationship_fails_open_witness:
  \<open>brokenLun ''HASRSSOBJECT'' = Some (VStr ''{"HyperMetro":'') \<and>
   jsonUnmarshal (arrays [RMap connectInfo1, RNil]) ''{"HyperMetro":'' = None \<and>
   \<not> snd (isHyperMetro (arrays [RMap connectInfo1, RNil]) brokenLun) \<and>
   snd (AttachVolume (arrays [RMap connectInfo1, RNil]) (bonded True True) 0 ''v2'' Map.empty) =
     Inr connectInfo1\<close>
proof -
  let ?e = "arrays [RMap connectInfo1, RNil]"
  let ?st = "bonded True True"
  have h1: \<open>brokenLun ''HASRSSOBJECT'' = Some (VStr ''{"HyperMetro":'')\<close>
    by (simp add: brokenLun_def)
  have h2: \<open>jsonUnmarshal ?e ''{"HyperMetro":'' = None\<close>
    by (simp add: arrays_def)
  have bad: "brokenLun ''HASRSSOBJECT'' = None \<or>
           (\<exists>v. brokenLun ''HASRSSOBJECT'' = Some v \<and> asString v = None) \<or>
           (\<exists>s. brokenLun ''HASRSSOBJECT'' = Some (VStr s) \<and> jsonUnmarshal ?e s = None)"
    using h1 h2 by simp
  have pre: "storageOnline (?st 0) \<and>
            GetLunByName ?e (cli (?st 0)) (MakeLunName ?e (cli (?st 0)) ''v2'') =
              Inr (Some brokenLun) \<and>
            asString (index brokenLun ''NAME'') = Some ''v2'' \<and>
            ReflectCall ?e
              (NewAttacher (product (?st 0)) (Some (cli (?st 0))) (protocol (?st 0)) ''csi''
                 (portals (?st 0)) (alua (?st 0)))
              ''ControllerAttach'' ''v2'' Map.empty = [RMap connectInfo1, RNil]"
    by (simp add: arrays_def bonded_def pluginA_def brokenLun_def index_def)
  from malformed_relationship_fails_open [of brokenLun ?e ?st 0 "''v2''" Map.empty] bad pre h1 h2
  show ?thesis by blast
qed

section \<open>Absent volumes and absent backends\<close>

text \<open>
  Claim C5. Teardown is idempotent. When the array that \<open>DetachVolume\<close> consults (the local
  one if online, else the online metro remote) finds no LUN under the name, \<open>DetachVolume\<close>
  returns the nil error. When no backend exists under the name in the volume id, the driver's
  \<open>DeleteVolume\<close> and \<open>ControllerUnpublishVolume\<close> return their success response; so does
  \<open>DeleteSnapshot\<close> for a snapshot id (which a request must carry) whose backend does not
  exist.
\<close>

theorem teardown_idempotent:
  "((storageOnline (st pid) \<and>
     GetLunByName e (cli (st pid)) (MakeLunName e (cli (st pid)) name) = Inr None) \<or>
    (\<not> storageOnline (st pid) \<and>
     (\<exists>r. metroRemotePlugin (st pid) = Some r \<and> storageOnline (st r) \<and>
          GetLunByName e (cli (st r)) (MakeLunName e (cli (st pid)) name) = Inr None)) \<longrightarrow>
      snd (DetachVolume e st pid name params) = None) \<and>
   (GetBackendWithFresh d (fst (SplitVolumeId d volumeId)) = None \<longrightarrow>
      snd (Driver_DeleteVolume d volumeId) = Inr DeleteVolumeResponse \<and>
      snd (Driver_ControllerUnpublishVolume d volumeId nodeInfo) =
        Inr ControllerUnpublishVolumeResponse) \<and>
   (snapshotId \<noteq> [] \<and> GetBackendWithFresh d (fst (SplitSnapshotId d snapshotId)) = None \<longrightarrow>
      snd (Driver_DeleteSnapshot d snapshotId) = Inr DeleteSnapshotResponse)"
proof -
  have detach: "(storageOnline (st pid) \<and>
     GetLunByName e (cli (st pid)) (MakeLunName e (cli (st pid)) name) = Inr None) \<or>
    (\<not> storageOnline (st pid) \<and>
     (\<exists>r. metroRemotePlugin (st pid) = Some r \<and> storageOnline (st r) \<and>
          GetLunByName e (cli (st r)) (MakeLunName e (cli (st pid)) name) = Inr None)) \<longrightarrow>
      snd (DetachVolume e st pid name params) = None"
  proof
    assume "(storageOnline (st pid) \<and>
     GetLunByName e (cli (st pid)) (MakeLunName e (cli (st pid)) name) = Inr None) \<or>
    (\<not> storageOnline (st pid) \<and>
     (\<exists>r. metroRemotePlugin (st pid) = Some r \<and> storageOnline (st r) \<and>
          GetLunByName e (cli (st r)) (MakeLunName e (cli (st pid)) name) = Inr None))"
    then have "snd (getLunInfo e st pid (requestLocalCli st pid) (requestMetroCli st pid)
                      (MakeLunName e (cli (st pid)) name)) = Inr None"
      by (rule getLunInfo_absent)
    then show "snd (DetachVolume e st pid name params) = None"
      by (simp add: DetachVolume_def Let_def)
  qed
  have volume: "GetBackendWithFresh d (fst (SplitVolumeId d volumeId)) = None \<longrightarrow>
      snd (Driver_DeleteVolume d volumeId) = Inr DeleteVolumeResponse \<and>
      snd (Driver_ControllerUnpublishVolume d volumeId nodeInfo) =
        Inr ControllerUnpublishVolumeResponse"
    by (simp add: Driver_DeleteVolume_def Driver_ControllerUnpublishVolume_def Let_def)
  have snapshot: "snapshotId \<noteq> [] \<and>
      GetBackendWithFresh d (fst (SplitSnapshotId d snapshotId)) = None \<longrightarrow>
      snd (Driver_DeleteSnapshot d snapshotId) = Inr DeleteSnapshotResponse"
    by (simp add: Driver_DeleteSnapshot_def Let_def)
  from detach volume snapshot show ?thesis by blast
qed

theorem teardown_idempotent_witness:
  "storageOnline (bonded True True 0) \<and>
   GetLunByName (arrays []) (cli (bonded True True 0))
     (MakeLunName (arrays []) (cli (bonded True True 0)) ''gone'') = Inr None \<and>
   GetBackendWithFresh noBackends (fst (SplitVolumeId noBackends ''b1.vol'')) = None \<and>
   ''b1.7.snap'' \<noteq> [] \<and>
   GetBackendWithFresh noBackends (fst (SplitSnapshotId noBackends ''b1.7.snap'')) = None \<and>
   snd (DetachVolume (arrays []) (bonded True True) 0 ''gone'' Map.empty) = None \<and>
   snd (Driver_DeleteVolume noBackends ''b1.vol'') = Inr DeleteVolumeResponse \<and>
   snd (Driver_ControllerUnpublishVolume noBackends ''b1.vol'' ''{}'') =
     Inr ControllerUnpublishVolumeResponse \<and>
   snd (Driver_DeleteSnapshot noBackends ''b1.7.snap'') = Inr DeleteSnapshotResponse"
proof -
  have h1: "storageOnline (bonded True True 0) \<and>
            GetLunByName (arrays []) (cli (bonded True True 0))
              (MakeLunName (arrays []) (cli (bonded True True 0)) ''gone'') = Inr None"
    by (simp add: bonded_def pluginA_def arrays_def)
  have h2: "GetBackendWithFresh noBackends (fst (SplitVolumeId noBackends ''b1.vol'')) = None"
    by (simp add: noBackends_def)
  have h3: "''b1.7.snap'' \<noteq> [] \<and>
            GetBackendWithFresh noBackends (fst (SplitSnapshotId noBackends ''b1.7.snap'')) = None"
    by (simp add: noBackends_def)
  from teardown_idempotent [of "bonded True True" 0 "arrays []" "''gone''" Map.empty noBackends
         "''b1.vol''" "''{}''" "''b1.7.snap''"] h1 h2 h3
  show ?thesis by blast
qed

text \<open>
  Claim C9. \<open>AttachVolume\<close> is not idempotent on absence: when the array it consults finds
  no LUN under the name, it returns the error "Get empty lun info", never a mapping.
\<close>

theorem AttachVolume_absent_lun_error:
  assumes "(storageOnline (st pid) \<and>
            GetLunByName e (cli (st pid)) (MakeLunName e (cli (st pid)) name) = Inr None) \<or>
           (\<not> storageOnline (st pid) \<and>
            (\<exists>r. metroRemotePlugin (st pid) = Some r \<and> storageOnline (st r) \<and>
                 GetLunByName e (cli (st r)) (MakeLunName e (cli (st pid)) name) = Inr None))"
  shows "snd (AttachVolume e st pid name params) =
           Inl (Err (''Get empty lun info, lunName: '' @ MakeLunName e (cli (st pid)) name))"
proof -
  from assms
  have "snd (getLunInfo e st pid (requestLocalCli st pid) (requestMetroCli st pid)
               (MakeLunName e (cli (st pid)) name)) = Inr None"
    by (rule getLunInfo_absent)
  then show ?thesis
    by (simp add: AttachVolume_def Let_def)
qed

theorem AttachVolume_absent_lun_error_witness:
  "\<not> storageOnline (bonded False True 0) \<and>
   metroRemotePlugin (bonded False True 0) = Some 1 \<and>
   storageOnline (bonded False True 1) \<and>
   GetLunByName (arrays []) (cli (bonded False True 1))
     (MakeLunName (arrays []) (cli (bonded False True 0)) ''gone'') = Inr None \<and>
   snd (AttachVolume (arrays []) (bonded False True) 0 ''gone'' Map.empty) =
     Inl (Err ''Get empty lun info, lunName: gone'')"
proof -
  have h: "\<not> storageOnline (bonded False True 0) \<and>
           metroRemotePlugin (bonded False True 0) = Some 1 \<and>
           storageOnline (bonded False True 1) \<and>
           GetLunByName (arrays []) (cli (bonded False True 1))
             (MakeLunName (arrays []) (cli (bonded False True 0)) ''gone'') = Inr None"
    by (simp add: bonded_def pluginA_def pluginB_def arrays_def)
  then have pre: "(storageOnline (bonded False True 0) \<and>
            GetLunByName (arrays []) (cli (bonded False True 0))
              (MakeLunName (arrays []) (cli (bonded False True 0)) ''gone'') = Inr None) \<or>
           (\<not> storageOnline (bonded False True 0) \<and>
            (\<exists>r. metroRemotePlugin (bonded False True 0) = Some r \<and>
                 storageOnline (bonded False True r) \<and>
                 GetLunByName (arrays []) (cli (bonded False True r))
                   (MakeLunName (arrays []) (cli (bonded False True 0)) ''gone'') = Inr None))"
    by blast
  have mk: "MakeLunName (arrays []) (cli (bonded False True 0)) ''gone'' = ''gone''"
    by (simp add: arrays_def)
  from AttachVolume_absent_lun_error [of "bonded False True" 0 "arrays []" "''gone''" Map.empty,
         OF pre] h mk
  show ?thesis by simp
qed

section \<open>Validation of strategy results\<close>

text \<open>
  Claim C8, amended. \<open>AttachVolume\<close> returns a mapping exactly when the LUN was found and the
  handler returned a result of length two whose error slot is nil and whose mapping slot is
  that map. \<open>DetachVolume\<close> returns the nil error exactly when the LUN is absent, or the
  handler returned a result of length two whose error slot is nil; it does not inspect the
  mapping slot. In both, a result of another length or with a populated error slot is never a
  success.
\<close>

theorem strategy_result_validated:
  "(attachResult n out = Inr m \<longleftrightarrow> (length out = 2 \<and> out ! 1 = RNil \<and> out ! 0 = RMap m)) \<and>
   (detachResult n out = None \<longleftrightarrow> (length out = 2 \<and> out ! 1 = RNil)) \<and>
   (snd (AttachVolume e st pid name ps) = Inr m \<longleftrightarrow>
      (\<exists>l res.
         snd (getLunInfo e st pid (requestLocalCli st pid) (requestMetroCli st pid)
                (MakeLunName e (cli (st pid)) name)) = Inr (Some l) \<and>
         snd (handler e st pid
                \<lparr>localCli = requestLocalCli st pid, metroCli = requestMetroCli st pid,
                 lun = l, parameters = ps, method = ''ControllerAttach''\<rparr>) = Inr res \<and>
         length res = 2 \<and> res ! 1 = RNil \<and> res ! 0 = RMap m)) \<and>
   (snd (DetachVolume e st pid name ps) = None \<longleftrightarrow>
      (snd (getLunInfo e st pid (requestLocalCli st pid) (requestMetroCli st pid)
              (MakeLunName e (cli (st pid)) name)) = Inr None \<or>
       (\<exists>l res.
         snd (getLunInfo e st pid (requestLocalCli st pid) (requestMetroCli st pid)
                (MakeLunName e (cli (st pid)) name)) = Inr (Some l) \<and>
         snd (handler e st pid
                \<lparr>localCli = requestLocalCli st pid, metroCli = requestMetroCli st pid,
                 lun = l, parameters = ps, method = ''ControllerDetach''\<rparr>) = Inr res \<and>
         length res = 2 \<and> res ! 1 = RNil)))"
proof -
  have attach: "snd (AttachVolume e st pid name ps) = Inr m \<longleftrightarrow>
      (\<exists>l res.
         snd (getLunInfo e st pid (requestLocalCli st pid) (requestMetroCli st pid)
                (MakeLunName e (cli (st pid)) name)) = Inr (Some l) \<and>
         snd (handler e st pid
                \<lparr>localCli = requestLocalCli st pid, metroCli = requestMetroCli st pid,
                 lun = l, parameters = ps, method = ''ControllerAttach''\<rparr>) = Inr res \<and>
         length res = 2 \<and> res ! 1 = RNil \<and> res ! 0 = RMap m)"
    by (auto simp: AttachVolume_def Let_def attachResult_ok
        split: sum.splits error.splits option.splits)
  have detach: "snd (DetachVolume e st pid name ps) = None \<longleftrightarrow>
      (snd (getLunInfo e st pid (requestLocalCli st pid) (requestMetroCli st pid)
              (MakeLunName e (cli (st pid)) name)) = Inr None \<or>
       (\<exists>l res.
         snd (getLunInfo e st pid (requestLocalCli st pid) (requestMetroCli st pid)
                (MakeLunName e (cli (st pid)) name)) = Inr (Some l) \<and>
         snd (handler e st pid
                \<lparr>localCli = requestLocalCli st pid, metroCli = requestMetroCli st pid,
                 lun = l, parameters = ps, method = ''ControllerDetach''\<rparr>) = Inr res \<and>
         length res = 2 \<and> res ! 1 = RNil))"
    by (auto simp: DetachVolume_def Let_def detachResult_ok
        split: sum.splits error.splits option.splits)
  from attachResult_ok [of n out m] detachResult_ok [of n out] attach detach
  show ?thesis by blast
qed

theorem strategy_result_validated_witness:
  "attachResult ''v1'' [RMap connectInfo1, RNil] = Inr connectInfo1 \<and>
   attachResult ''v1'' [RMap connectInfo1] \<noteq> Inr connectInfo1 \<and>
   attachResult ''v1'' [RMap connectInfo1, RError ''mapping failed''] \<noteq> Inr connectInfo1 \<and>
   detachResult ''v1'' [ROther, RError ''unmapping failed''] \<noteq> None"
  using strategy_result_validated [of "''v1''" "[RMap connectInfo1, RNil]" connectInfo1]
        strategy_result_validated [of "''v1''" "[RMap connectInfo1]" connectInfo1]
        strategy_result_validated [of "''v1''" "[RMap connectInfo1, RError ''mapping failed'']"
          connectInfo1]
        strategy_result_validated [of "''v1''" "[ROther, RError ''unmapping failed'']"]
  by simp

text \<open>
  Claim C8 as stated fails for detach: a strategy result whose mapping slot is not a map, or
  in which neither slot is populated, is a success of \<open>DetachVolume\<close>.
\<close>

theorem detach_ignores_mapping_slot_counterexample:
  "detachResult ''v1'' [ROther, RNil] = None \<and>
   detachResult ''v1'' [RNil, RNil] = None \<and>
   DetachVolume (arrays [ROther, RNil]) (bonded True True) 0 ''v1'' Map.empty =
     ([CallGetLunByName 10 ''v1'', CallGetHyperMetroPair 10 ''7'',
       CallReflect
         (NewMetroAttacher
            (NewAttacher ''DoradoV6'' (Some 10) ''iscsi'' ''csi'' [''192.168.1.10''] Map.empty)
            (NewAttacher ''DoradoV6'' (Some 11) ''fc'' ''csi'' [] Map.empty) ''iscsi'')
         ''ControllerDetach'' ''v1'' Map.empty],
      None)"
  by (simp add: detachResult_def reflectResultLength_def DetachVolume_def Let_def getLunInfo_def
      requestLocalCli_def requestMetroCli_def bonded_def pluginA_def pluginB_def arrays_def
      handler_def isHyperMetro_def metroLun_def index_def after_def metroHandler_def
      normalPair_def pairStatusWarning_def hyperMetroPairRunningStatusNormal_def
      hyperMetroPairRunningStatusPause_def)

section \<open>Capabilities of the fusionstorage-san plugin\<close>

text \<open>
  Claim C10. \<open>FusionStorageSan_UpdateBackendCapabilities\<close> is constant: for every plugin it
  returns the map of exactly the five entries SupportThin true, SupportThick false,
  SupportQoS true, SupportClone true, SupportLabel false, the nil specification map and the
  nil error, and leaves the plugin as it was; no array client is involved.
\<close>

theorem FusionStorageSan_capabilities_constant:
  "fst (FusionStorageSan_UpdateBackendCapabilities p) =
     ([''SupportThin'' \<mapsto> VBool True, ''SupportThick'' \<mapsto> VBool False,
       ''SupportQoS'' \<mapsto> VBool True, ''SupportClone'' \<mapsto> VBool True,
       ''SupportLabel'' \<mapsto> VBool False], None, None) \<and>
   dom (fst (fst (FusionStorageSan_UpdateBackendCapabilities p))) =
     {''SupportThin'', ''SupportThick'', ''SupportQoS'', ''SupportClone'', ''SupportLabel''} \<and>
   snd (FusionStorageSan_UpdateBackendCapabilities p) = p \<and>
   fst (FusionStorageSan_UpdateBackendCapabilities p) =
     fst (FusionStorageSan_UpdateBackendCapabilities q)"
  by (auto simp add: FusionStorageSan_UpdateBackendCapabilities_def Let_def)

section \<open>Session reference counting\<close>

lemma mutexGetClient_cases:
  "mutexGetClient r st pid =
     (if \<not> storageOnline (st pid) \<or> clientCount (st pid) = 0 then
        (case r of
           None \<Rightarrow>
             ([CallLogin (cli (st pid)) None], (cli (st pid), None),
              st(pid := (st pid)\<lparr>storageOnline := True,
                                  clientCount := clientCount (st pid) + 1\<rparr>))
         | Some err \<Rightarrow>
             ([CallLogin (cli (st pid)) (Some err)], (cli (st pid), Some err),
              st(pid := (st pid)\<lparr>storageOnline := False\<rparr>)))
      else ([], (cli (st pid), None),
            st(pid := (st pid)\<lparr>clientCount := clientCount (st pid) + 1\<rparr>)))"
  by (auto simp: mutexGetClient_def Let_def split: option.splits)

lemma nested_successes: "nested pid n ops st \<Longrightarrow> successes pid ops st + n = releases ops"
  by (induction pid n ops st rule: nested.induct) (auto split: if_splits)

lemma endsLoggedOut_append: "endsLoggedOut c evs \<Longrightarrow> endsLoggedOut c (pre @ evs)"
  unfolding endsLoggedOut_def by (metis append.assoc)

text \<open>
  The invariant of a nested run: the holder count is the number of successful acquires not
  yet released (as a 64-bit word). The run ends with count zero and offline, on a logout or
  on a failed login.
\<close>

lemma runSession_nested:
  "nested pid n ops st \<Longrightarrow> clientCount (st pid) = of_nat n \<Longrightarrow>
   (ops = [] \<longrightarrow> \<not> storageOnline (st pid)) \<Longrightarrow>
   clientCount (snd (runSession pid ops st) pid) = 0 \<and>
   \<not> storageOnline (snd (runSession pid ops st) pid) \<and>
   (ops \<noteq> [] \<longrightarrow> endsLoggedOut (cli (st pid)) (fst (runSession pid ops st)))"
proof (induction pid n ops st rule: nested.induct)
  case (1 pid n st)
  then show ?case by simp
next
  case (2 pid n r ops st)
  let ?g = "mutexGetClient r st pid"
  let ?st1 = "snd (snd ?g)"
  let ?n1 = "if acquired r st pid then Suc n else n"
  from "2.prems" have nst: "nested pid ?n1 ops ?st1" by simp
  have cnt: "clientCount (?st1 pid) = of_nat ?n1"
    using "2.prems"(2) by (auto simp: acquired_def mutexGetClient_cases split: option.splits)
  have cli1: "cli (?st1 pid) = cli (st pid)"
    by (auto simp: mutexGetClient_cases split: option.splits)
  have off: "ops = [] \<longrightarrow> \<not> storageOnline (?st1 pid)"
  proof
    assume "ops = []"
    with nst have "?n1 = 0" by simp
    then have "\<not> acquired r st pid" by (auto split: if_splits)
    then show "\<not> storageOnline (?st1 pid)"
      by (auto simp: acquired_def mutexGetClient_cases split: option.splits if_splits)
  qed
  from "2.IH" [OF nst cnt off]
  have ih: "clientCount (snd (runSession pid ops ?st1) pid) = 0"
           "\<not> storageOnline (snd (runSession pid ops ?st1) pid)"
           "ops \<noteq> [] \<longrightarrow> endsLoggedOut (cli (st pid)) (fst (runSession pid ops ?st1))"
    using cli1 by simp_all
  have fin: "snd (runSession pid (Acquire r # ops) st) = snd (runSession pid ops ?st1)"
    by (simp add: Let_def after_snd)
  have tr: "fst (runSession pid (Acquire r # ops) st) = fst ?g @ fst (runSession pid ops ?st1)"
    by (simp add: Let_def after_fst)
  have "endsLoggedOut (cli (st pid)) (fst (runSession pid (Acquire r # ops) st))"
  proof (cases "ops = []")
    case True
    with nst have "?n1 = 0" by simp
    then have "\<not> acquired r st pid" by (auto split: if_splits)
    then obtain err where "fst ?g = [CallLogin (cli (st pid)) (Some err)]"
      by (auto simp: acquired_def mutexGetClient_cases split: option.splits if_splits)
    then show ?thesis using True tr by (simp add: endsLoggedOut_def)
  next
    case False
    with ih(3) show ?thesis unfolding tr by (simp add: endsLoggedOut_append)
  qed
  with ih fin show ?case by simp
next
  case (3 pid ops st)
  then show ?case by simp
next
  case (4 pid n ops st)
  let ?r = "mutexReleaseClient st pid (cli (st pid))"
  let ?st1 = "snd ?r"
  from "4.prems" have nst: "nested pid n ops ?st1" by simp
  have cnt: "clientCount (?st1 pid) = of_nat n"
    using "4.prems"(2) by (simp add: mutexReleaseClient_def Let_def)
  have cli1: "cli (?st1 pid) = cli (st pid)"
    by (simp add: mutexReleaseClient_def Let_def)
  have final: "ops = [] \<longrightarrow>
                 \<not> storageOnline (?st1 pid) \<and> fst ?r = [CallLogout (cli (st pid))]"
  proof
    assume "ops = []"
    with nst have "n = 0" by simp
    with "4.prems"(2)
    show "\<not> storageOnline (?st1 pid) \<and> fst ?r = [CallLogout (cli (st pid))]"
      by (simp add: mutexReleaseClient_def Let_def)
  qed
  then have off: "ops = [] \<longrightarrow> \<not> storageOnline (?st1 pid)" by simp
  from "4.IH" [OF nst cnt off]
  have ih: "clientCount (snd (runSession pid ops ?st1) pid) = 0"
           "\<not> storageOnline (snd (runSession pid ops ?st1) pid)"
           "ops \<noteq> [] \<longrightarrow> endsLoggedOut (cli (st pid)) (fst (runSession pid ops ?st1))"
    using cli1 by simp_all
  have fin: "snd (runSession pid (Release # ops) st) = snd (runSession pid ops ?st1)"
    by (simp add: Let_def after_snd)
  have tr: "fst (runSession pid (Release # ops) st) = fst ?r @ fst (runSession pid ops ?st1)"
    by (simp add: Let_def after_fst)
  have "endsLoggedOut (cli (st pid)) (fst (runSession pid (Release # ops) st))"
  proof (cases "ops = []")
    case True
    with final tr show ?thesis by (simp add: endsLoggedOut_def)
  next
    case False
    with ih(3) show ?thesis unfolding tr by (simp add: endsLoggedOut_append)
  qed
  with ih fin show ?case by simp
qed

text \<open>
  Claim C2, amended. Take a sequence of acquires and releases on one plugin that starts with
  holder count zero, in which every release follows a successful acquire not yet released
  and none is outstanding at the end, so that the successful acquires and the releases are
  equally many; acquires whose login fails may occur anywhere and hold nothing. If the
  sequence is not empty, or the plugin is offline at the start, then the final holder count
  is zero and the online flag is false; and if the sequence is not empty, the last session
  call is the logout of the plugin's client or a login of it that failed. In any state, a
  release logs out exactly when it brings the count to zero, and an acquire never logs out.
\<close>

theorem session_nested_ends_logged_out:
  assumes "nested pid 0 ops st" and "clientCount (st pid) = 0"
      and "ops \<noteq> [] \<or> \<not> storageOnline (st pid)"
  shows "successes pid ops st = releases ops \<and>
         clientCount (snd (runSession pid ops st) pid) = 0 \<and>
         \<not> storageOnline (snd (runSession pid ops st) pid) \<and>
         (ops \<noteq> [] \<longrightarrow>
            (\<exists>evs. fst (runSession pid ops st) = evs @ [CallLogout (cli (st pid))]) \<or>
            (\<exists>evs err. fst (runSession pid ops st) =
                          evs @ [CallLogin (cli (st pid)) (Some err)])) \<and>
         (\<forall>s q c. CallLogout c \<in> set (fst (mutexReleaseClient s q c)) \<longleftrightarrow>
                   clientCount (s q) - 1 = 0) \<and>
         (\<forall>s q c r. CallLogout c \<notin> set (fst (mutexGetClient r s q)))"
proof -
  have "successes pid ops st = releases ops"
    using nested_successes [OF assms(1)] by simp
  moreover have "clientCount (snd (runSession pid ops st) pid) = 0 \<and>
      \<not> storageOnline (snd (runSession pid ops st) pid) \<and>
      (ops \<noteq> [] \<longrightarrow> endsLoggedOut (cli (st pid)) (fst (runSession pid ops st)))"
    using runSession_nested [of pid 0 ops st] assms by auto
  moreover have "\<forall>s q c. CallLogout c \<in> set (fst (mutexReleaseClient s q c)) \<longleftrightarrow>
                         clientCount (s q) - 1 = 0"
    by (auto simp: mutexReleaseClient_def Let_def)
  moreover have "\<forall>s q c r. CallLogout c \<notin> set (fst (mutexGetClient r s q))"
    by (auto simp: mutexGetClient_def Let_def)
  ultimately show ?thesis unfolding endsLoggedOut_def by blast
qed

theorem session_nested_ends_logged_out_witness:
  "nested 0 0 [Acquire (Some (Err ''login failed'')), Acquire None, Acquire None, Release,
               Release] (bonded True True) \<and>
   clientCount (bonded True True 0) = 0 \<and>
   successes 0 [Acquire (Some (Err ''login failed'')), Acquire None, Acquire None, Release,
                Release] (bonded True True) = 2 \<and>
   clientCount (snd (runSession 0 [Acquire (Some (Err ''login failed'')), Acquire None,
                                   Acquire None, Release, Release] (bonded True True)) 0) = 0 \<and>
   \<not> storageOnline (snd (runSession 0 [Acquire (Some (Err ''login failed'')), Acquire None,
                                       Acquire None, Release, Release] (bonded True True)) 0) \<and>
   fst (runSession 0 [Acquire (Some (Err ''login failed'')), Acquire None, Acquire None,
                      Release, Release] (bonded True True)) =
     [CallLogin 10 (Some (Err ''login failed'')), CallLogin 10 None, CallLogout 10]"
proof -
  let ?ops = "[Acquire (Some (Err ''login failed'')), Acquire None, Acquire None, Release,
               Release]"
  have h1: "nested 0 0 ?ops (bonded True True)"
    by (simp add: acquired_def mutexGetClient_def mutexReleaseClient_def Let_def bonded_def
        pluginA_def)
  have h2: "clientCount (bonded True True 0) = 0"
    by (simp add: bonded_def pluginA_def)
  have h3: "?ops \<noteq> [] \<or> \<not> storageOnline (bonded True True 0)"
    by simp
  have rel: "releases ?ops = 2"
    by simp
  have ev: "fst (runSession 0 ?ops (bonded True True)) =
              [CallLogin 10 (Some (Err ''login failed'')), CallLogin 10 None, CallLogout 10]"
    by (simp add: mutexGetClient_def mutexReleaseClient_def Let_def after_def bonded_def
        pluginA_def)
  from session_nested_ends_logged_out [of 0 ?ops "bonded True True"] h1 h2 h3 rel ev
  show ?thesis by simp
qed

text \<open>
  Claim C2 as stated fails from the state \<^verbatim>\<open>Init\<close> leaves, online with holder count
  zero. A release ahead of its acquire finds the plugin online, takes the count below zero
  without a logout, and the acquire brings it back to zero without a login: one acquire and
  one release, and the plugin ends online with no logout made. And the empty sequence, of no
  acquire and no release, leaves the plugin online.
\<close>

theorem session_unpaired_counterexample:
  "storageOnline (bonded True True 0) \<and> clientCount (bonded True True 0) = 0 \<and>
   acquires [Release, Acquire None] = releases [Release, Acquire None] \<and>
   clientCount (snd (runSession 0 [Release, Acquire None] (bonded True True)) 0) = 0 \<and>
   storageOnline (snd (runSession 0 [Release, Acquire None] (bonded True True)) 0) \<and>
   fst (runSession 0 [Release, Acquire None] (bonded True True)) = [] \<and>
   acquires [] = releases [] \<and>
   storageOnline (snd (runSession 0 [] (bonded True True)) 0)"
  by (simp add: mutexGetClient_def mutexReleaseClient_def Let_def after_def bonded_def
      pluginA_def)

section \<open>The metro capability\<close>

lemma UpdateBackendCapabilities_report:
  "fst (UpdateBackendCapabilities (Inr (caps, specs)) st pid) =
     Inr (updateReplicaCapability (st(pid := (st pid)\<lparr>storageOnline := True\<rparr>)) pid
            (updateHyperMetroCapability (st(pid := (st pid)\<lparr>storageOnline := True\<rparr>)) pid
               caps),
          specs)"
  by (simp add: UpdateBackendCapabilities_def Let_def)

lemma updateReplicaCapability_metro:
  "updateReplicaCapability st pid c ''SupportMetro'' = c ''SupportMetro''"
  by (simp add: updateReplicaCapability_def split: option.splits)

text \<open>
  Claim C6, amended. A successful \<open>UpdateBackendCapabilities\<close> sets the local online flag.
  When the array's own report has a \<^verbatim>\<open>SupportMetro\<close> entry other than false, the
  reported entry is the bool "a metro remote is bonded, and the local and the remote online
  flags are true" read in the state the call leaves, that is after the local flag was set;
  an absent or false entry is reported as it is. The local flag's value before the call
  does not change the report; for a bonded remote other than the plugin itself, the
  reported entry is the remote's online flag.
\<close>

theorem metro_capability_report:
  "snd (UpdateBackendCapabilities (Inr (caps, specs)) st pid) =
     st(pid := (st pid)\<lparr>storageOnline := True\<rparr>) \<and>
   reportedMetro (fst (UpdateBackendCapabilities (Inr (caps, specs)) st pid)) =
     (case caps ''SupportMetro'' of
        None \<Rightarrow> None
      | Some v \<Rightarrow>
          if v = VBool False then Some (VBool False)
          else Some (VBool
                 (case metroRemotePlugin (st pid) of
                    None \<Rightarrow> False
                  | Some r \<Rightarrow>
                      storageOnline
                        (snd (UpdateBackendCapabilities (Inr (caps, specs)) st pid) pid) \<and>
                      storageOnline
                        (snd (UpdateBackendCapabilities (Inr (caps, specs)) st pid) r)))) \<and>
   fst (UpdateBackendCapabilities (Inr (caps, specs))
          (st(pid := (st pid)\<lparr>storageOnline := b\<rparr>)) pid) =
     fst (UpdateBackendCapabilities (Inr (caps, specs)) st pid) \<and>
   (\<forall>r v. metroRemotePlugin (st pid) = Some r \<and> r \<noteq> pid \<and>
           caps ''SupportMetro'' = Some v \<and> v \<noteq> VBool False \<longrightarrow>
      reportedMetro (fst (UpdateBackendCapabilities (Inr (caps, specs))
                            (st(r := (st r)\<lparr>storageOnline := b\<rparr>)) pid)) = Some (VBool b))"
proof -
  have post: "snd (UpdateBackendCapabilities (Inr (caps, specs)) st pid) =
     st(pid := (st pid)\<lparr>storageOnline := True\<rparr>)"
    by (simp add: UpdateBackendCapabilities_def Let_def)
  have report: "reportedMetro (fst (UpdateBackendCapabilities (Inr (caps, specs)) st pid)) =
     (case caps ''SupportMetro'' of
        None \<Rightarrow> None
      | Some v \<Rightarrow>
          if v = VBool False then Some (VBool False)
          else Some (VBool
                 (case metroRemotePlugin (st pid) of
                    None \<Rightarrow> False
                  | Some r \<Rightarrow>
                      storageOnline
                        (snd (UpdateBackendCapabilities (Inr (caps, specs)) st pid) pid) \<and>
                      storageOnline
                        (snd (UpdateBackendCapabilities (Inr (caps, specs)) st pid) r))))"
    unfolding post
    by (simp add: UpdateBackendCapabilities_report reportedMetro_def
        updateReplicaCapability_metro updateHyperMetroCapability_def split: option.splits)
  have local: "fst (UpdateBackendCapabilities (Inr (caps, specs))
                      (st(pid := (st pid)\<lparr>storageOnline := b\<rparr>)) pid) =
     fst (UpdateBackendCapabilities (Inr (caps, specs)) st pid)"
    by (simp add: UpdateBackendCapabilities_report)
  have remote: "\<forall>r v. metroRemotePlugin (st pid) = Some r \<and> r \<noteq> pid \<and>
           caps ''SupportMetro'' = Some v \<and> v \<noteq> VBool False \<longrightarrow>
      reportedMetro (fst (UpdateBackendCapabilities (Inr (caps, specs))
                            (st(r := (st r)\<lparr>storageOnline := b\<rparr>)) pid)) = Some (VBool b)"
    by (auto simp add: UpdateBackendCapabilities_report reportedMetro_def
        updateReplicaCapability_metro updateHyperMetroCapability_def)
  from post report local remote show ?thesis by blast
qed

theorem metro_capability_report_witness:
  "metroRemotePlugin (bonded True True 0) = Some 1 \<and> (1::nat) \<noteq> 0 \<and>
   metroCaps ''SupportMetro'' = Some (VBool True) \<and> VBool True \<noteq> VBool False \<and>
   reportedMetro (fst (UpdateBackendCapabilities (Inr (metroCaps, Map.empty))
                         ((bonded True True)(1 := (bonded True True 1)\<lparr>storageOnline := False\<rparr>))
                         0)) = Some (VBool False) \<and>
   reportedMetro (fst (UpdateBackendCapabilities (Inr (metroCaps, Map.empty))
                         ((bonded True True)(1 := (bonded True True 1)\<lparr>storageOnline := True\<rparr>))
                         0)) = Some (VBool True)"
proof -
  have h: "metroRemotePlugin (bonded True True 0) = Some 1 \<and> (1::nat) \<noteq> 0 \<and>
           metroCaps ''SupportMetro'' = Some (VBool True) \<and> VBool True \<noteq> VBool False"
    by (simp add: bonded_def pluginA_def metroCaps_def)
  from metro_capability_report [of metroCaps Map.empty "bonded True True" 0 False] h
       metro_capability_report [of metroCaps Map.empty "bonded True True" 0 True]
  show ?thesis by blast
qed

text \<open>
  Claim C6 as stated fails for the local flag: with the local plugin offline when the call
  is made, a bonded online remote and an array that reports metro support, the report says
  \<^verbatim>\<open>SupportMetro\<close> true, and it is the same report as with the local plugin online.
\<close>

theorem metro_capability_local_flag_counterexample:
  "\<not> storageOnline (bonded False True 0) \<and>
   reportedMetro (fst (UpdateBackendCapabilities (Inr (metroCaps, Map.empty))
                         (bonded False True) 0)) = Some (VBool True) \<and>
   fst (UpdateBackendCapabilities (Inr (metroCaps, Map.empty)) (bonded False True) 0) =
   fst (UpdateBackendCapabilities (Inr (metroCaps, Map.empty)) (bonded True True) 0)"
proof -
  have eq: "(bonded False True)(0 := (bonded False True 0)\<lparr>storageOnline := True\<rparr>) =
            (bonded True True)(0 := (bonded True True 0)\<lparr>storageOnline := True\<rparr>)"
    by (rule ext) (simp add: bonded_def)
  have offline: "\<not> storageOnline (bonded False True 0)"
    by (simp add: bonded_def)
  have report: "reportedMetro (fst (UpdateBackendCapabilities (Inr (metroCaps, Map.empty))
                                      (bonded False True) 0)) = Some (VBool True)"
    by (simp add: UpdateBackendCapabilities_report reportedMetro_def
        updateReplicaCapability_metro updateHyperMetroCapability_def metroCaps_def bonded_def
        pluginA_def pluginB_def)
  have same: "fst (UpdateBackendCapabilities (Inr (metroCaps, Map.empty)) (bonded False True) 0) =
              fst (UpdateBackendCapabilities (Inr (metroCaps, Map.empty)) (bonded True True) 0)"
    by (simp only: UpdateBackendCapabilities_report eq)
  from offline report same show ?thesis by blast
qed

section \<open>Validation leaves the tracked session alone\<close>

lemma verifyOceanstorSanParam_silent:
  "ev \<in> set (fst (verifyOceanstorSanParam ve param)) \<Longrightarrow> \<not> touches c ev"
  by (auto simp: verifyOceanstorSanParam_def touches_def
      split: option.splits if_splits sum.splits)

text \<open>
  Claim C7, amended. \<open>Validate\<close> never changes the store: the plugin's client, holder count
  and online flag are as before, whether it succeeds or fails. When the parameters pass
  verification and a client configuration is built, it probes login on the client that
  \<^verbatim>\<open>NewClient\<close> allocates and, if the probe succeeds, logs that client out at once; its
  result is the probe's, and when that client is not the plugin's own, no session call is
  made on the plugin's client. When verification or the configuration fails, it returns an
  error and makes no session call on any client.
\<close>

theorem Validate_frame:
  "snd (snd (Validate ve st pid param)) = st \<and>
   (\<forall>cfg. snd (verifyOceanstorSanParam ve param) = None \<and>
          getNewClientConfig ve (st pid) param = Inr cfg \<longrightarrow>
      Validate ve st pid param =
        ([LogInfo ''Start to validate OceanstorSanPlugin parameters.'' []] @
         fst (verifyOceanstorSanParam ve param) @
         CallValidateLogin (NewClient ve cfg) (ValidateLogin ve (NewClient ve cfg)) #
         (if ValidateLogin ve (NewClient ve cfg) = None then [CallLogout (NewClient ve cfg)]
          else []),
         ValidateLogin ve (NewClient ve cfg), st) \<and>
      (NewClient ve cfg \<noteq> cli (st pid) \<longrightarrow>
        (\<forall>ev \<in> set (fst (Validate ve st pid param)). \<not> touches (cli (st pid)) ev))) \<and>
   (snd (verifyOceanstorSanParam ve param) \<noteq> None \<or>
    (\<exists>err. getNewClientConfig ve (st pid) param = Inl err) \<longrightarrow>
      fst (snd (Validate ve st pid param)) \<noteq> None \<and>
      (\<forall>ev \<in> set (fst (Validate ve st pid param)). \<forall>c. \<not> touches c ev))"
proof -
  have frame: "snd (snd (Validate ve st pid param)) = st"
    by (simp add: Validate_def Let_def split: option.splits sum.splits)
  have probe: "\<forall>cfg. snd (verifyOceanstorSanParam ve param) = None \<and>
          getNewClientConfig ve (st pid) param = Inr cfg \<longrightarrow>
      Validate ve st pid param =
        ([LogInfo ''Start to validate OceanstorSanPlugin parameters.'' []] @
         fst (verifyOceanstorSanParam ve param) @
         CallValidateLogin (NewClient ve cfg) (ValidateLogin ve (NewClient ve cfg)) #
         (if ValidateLogin ve (NewClient ve cfg) = None then [CallLogout (NewClient ve cfg)]
          else []),
         ValidateLogin ve (NewClient ve cfg), st)"
    by (auto simp add: Validate_def Let_def split: option.splits)
  have fresh: "\<forall>cfg. snd (verifyOceanstorSanParam ve param) = None \<and>
          getNewClientConfig ve (st pid) param = Inr cfg \<and> NewClient ve cfg \<noteq> cli (st pid) \<longrightarrow>
        (\<forall>ev \<in> set (fst (Validate ve st pid param)). \<not> touches (cli (st pid)) ev)"
  proof (intro allI impI ballI)
    fix cfg ev
    assume h: "snd (verifyOceanstorSanParam ve param) = None \<and>
          getNewClientConfig ve (st pid) param = Inr cfg \<and> NewClient ve cfg \<noteq> cli (st pid)"
       and ev: "ev \<in> set (fst (Validate ve st pid param))"
    from probe h
    have "fst (Validate ve st pid param) =
         [LogInfo ''Start to validate OceanstorSanPlugin parameters.'' []] @
         fst (verifyOceanstorSanParam ve param) @
         CallValidateLogin (NewClient ve cfg) (ValidateLogin ve (NewClient ve cfg)) #
         (if ValidateLogin ve (NewClient ve cfg) = None then [CallLogout (NewClient ve cfg)]
          else [])"
      by simp
    with ev have "ev = LogInfo ''Start to validate OceanstorSanPlugin parameters.'' [] \<or>
        ev \<in> set (fst (verifyOceanstorSanParam ve param)) \<or>
        ev = CallValidateLogin (NewClient ve cfg) (ValidateLogin ve (NewClient ve cfg)) \<or>
        ev = CallLogout (NewClient ve cfg)"
      by (auto split: if_splits)
    then show "\<not> touches (cli (st pid)) ev"
      using h verifyOceanstorSanParam_silent [of ev ve param "cli (st pid)"]
      by (auto simp: touches_def)
  qed
  have early: "snd (verifyOceanstorSanParam ve param) \<noteq> None \<or>
    (\<exists>err. getNewClientConfig ve (st pid) param = Inl err) \<longrightarrow>
      fst (snd (Validate ve st pid param)) \<noteq> None \<and>
      (\<forall>ev \<in> set (fst (Validate ve st pid param)). \<forall>c. \<not> touches c ev)"
  proof (intro impI conjI ballI allI)
    assume h: "snd (verifyOceanstorSanParam ve param) \<noteq> None \<or>
        (\<exists>err. getNewClientConfig ve (st pid) param = Inl err)"
    then show "fst (snd (Validate ve st pid param)) \<noteq> None"
      by (auto simp add: Validate_def Let_def split: option.splits sum.splits)
    fix ev c
    assume ev: "ev \<in> set (fst (Validate ve st pid param))"
    from h have "fst (Validate ve st pid param) =
        LogInfo ''Start to validate OceanstorSanPlugin parameters.'' [] #
        fst (verifyOceanstorSanParam ve param)"
      by (auto simp add: Validate_def Let_def split: option.splits sum.splits)
    with ev show "\<not> touches c ev"
      using verifyOceanstorSanParam_silent [of ev ve param c] by (auto simp: touches_def)
  qed
  from frame probe fresh early show ?thesis by blast
qed

theorem Validate_frame_witness:
  "snd (verifyOceanstorSanParam (probing None) fcConfig) = None \<and>
   getNewClientConfig (probing None) (bonded True True 0) fcConfig = Inr () \<and>
   NewClient (probing None) () \<noteq> cli (bonded True True 0) \<and>
   Validate (probing None) (bonded True True) 0 fcConfig =
     ([LogInfo ''Start to validate OceanstorSanPlugin parameters.'' [],
       CallValidateLogin 99 None, CallLogout 99], None, bonded True True)"
proof -
  have h1: "snd (verifyOceanstorSanParam (probing None) fcConfig) = None"
    by (simp add: verifyOceanstorSanParam_def fcConfig_def index_def)
  have h1': "fst (verifyOceanstorSanParam (probing None) fcConfig) = []"
    by (simp add: verifyOceanstorSanParam_def fcConfig_def index_def)
  have h2: "getNewClientConfig (probing None) (bonded True True 0) fcConfig = Inr ()"
    by (simp add: probing_def)
  have h3: "NewClient (probing None) () \<noteq> cli (bonded True True 0)"
    by (simp add: probing_def bonded_def pluginA_def)
  have h4: "NewClient (probing None) () = 99" "ValidateLogin (probing None) 99 = None"
    by (simp_all add: probing_def)
  from Validate_frame [of "probing None" "bonded True True" 0 fcConfig] h1 h2
  have "Validate (probing None) (bonded True True) 0 fcConfig =
        ([LogInfo ''Start to validate OceanstorSanPlugin parameters.'' []] @
         fst (verifyOceanstorSanParam (probing None) fcConfig) @
         CallValidateLogin (NewClient (probing None) ())
           (ValidateLogin (probing None) (NewClient (probing None) ())) #
         (if ValidateLogin (probing None) (NewClient (probing None) ()) = None
          then [CallLogout (NewClient (probing None) ())] else []),
         ValidateLogin (probing None) (NewClient (probing None) ()), bonded True True)"
    by blast
  then show ?thesis using h1 h1' h2 h3 h4 by simp
qed

text \<open>
  Claim C7 as stated fails for a parameter map without parameters: \<open>Validate\<close> returns the
  verification error and builds and probes no client. And when the login probe fails, the
  error is returned without a logout.
\<close>

theorem Validate_no_client_counterexample:
  "Validate (probing None) (bonded True True) 0 Map.empty =
     ([LogInfo ''Start to validate OceanstorSanPlugin parameters.'' [],
       LogError ''Verify parameters: [%v] failed. parameters must be provided'' [VNil]],
      Some (Err ''Verify parameters: [%v] failed. parameters must be provided''),
      bonded True True) \<and>
   Validate (probing (Some (Err ''unauthorized''))) (bonded True True) 0 fcConfig =
     ([LogInfo ''Start to validate OceanstorSanPlugin parameters.'' [],
       CallValidateLogin 99 (Some (Err ''unauthorized''))],
      Some (Err ''unauthorized''),
      bonded True True)"
  by (simp add: Validate_def verifyOceanstorSanParam_def probing_def Let_def index_def
      fcConfig_def)

end
